theory Spec2Isabelle
  imports Complex_Main "HOL-Library.AList"
begin

section \<open>JavaScript numbers\<close>

text \<open>
  A JavaScript number is a finite value, an infinity or \<open>NaN\<close>; a finite value is
  held as the real it denotes, and the sign of zero is not modelled. Arithmetic and
  comparison on \<open>jsnum\<close> follow the language (anything with \<open>NaN\<close> is \<open>NaN\<close>, every
  comparison with \<open>NaN\<close> is false, a nonzero value divided by zero is an infinity).
  The operations \<open>js_plus\<close>, \<open>js_minus\<close>, \<open>js_mult\<close> and \<open>js_divide\<close> give the exact
  result; \<open>double_minus\<close>, \<open>double_mult\<close> and \<open>double_divide\<close> round it to the nearest
  double as the machine does. The indicators and the scoring are written with the exact
  operations; the drop percentage, which both loops compare with the threshold 5, is
  computed with the rounding ones. A price of the gainers list is a finite double and is
  held as a real; what is proved of the tracking state holds for every real price, so
  for every double.
\<close>

datatype jsnum = Fin real | PInf | NInf | NaN

definition js_div :: "real \<Rightarrow> real \<Rightarrow> jsnum" where
  "js_div x y =
     (if y \<noteq> 0 then Fin (x / y)
      else if 0 < x then PInf
      else if x < 0 then NInf
      else NaN)"

fun js_neg :: "jsnum \<Rightarrow> jsnum" where
  "js_neg (Fin a) = Fin (- a)"
| "js_neg PInf = NInf"
| "js_neg NInf = PInf"
| "js_neg NaN = NaN"

fun js_plus :: "jsnum \<Rightarrow> jsnum \<Rightarrow> jsnum" where
  "js_plus (Fin a) (Fin b) = Fin (a + b)"
| "js_plus (Fin a) PInf = PInf"
| "js_plus (Fin a) NInf = NInf"
| "js_plus PInf (Fin b) = PInf"
| "js_plus NInf (Fin b) = NInf"
| "js_plus PInf PInf = PInf"
| "js_plus NInf NInf = NInf"
| "js_plus _ _ = NaN"

definition js_minus :: "jsnum \<Rightarrow> jsnum \<Rightarrow> jsnum" where
  "js_minus a b = js_plus a (js_neg b)"

fun js_mult :: "jsnum \<Rightarrow> jsnum \<Rightarrow> jsnum" where
  "js_mult (Fin a) (Fin b) = Fin (a * b)"
| "js_mult (Fin a) PInf = (if 0 < a then PInf else if a < 0 then NInf else NaN)"
| "js_mult (Fin a) NInf = (if 0 < a then NInf else if a < 0 then PInf else NaN)"
| "js_mult PInf (Fin b) = (if 0 < b then PInf else if b < 0 then NInf else NaN)"
| "js_mult NInf (Fin b) = (if 0 < b then NInf else if b < 0 then PInf else NaN)"
| "js_mult PInf PInf = PInf"
| "js_mult NInf NInf = PInf"
| "js_mult PInf NInf = NInf"
| "js_mult NInf PInf = NInf"
| "js_mult _ _ = NaN"

fun js_divide :: "jsnum \<Rightarrow> jsnum \<Rightarrow> jsnum" where
  "js_divide (Fin a) (Fin b) = js_div a b"
| "js_divide (Fin a) PInf = Fin 0"
| "js_divide (Fin a) NInf = Fin 0"
| "js_divide PInf (Fin b) = (if 0 \<le> b then PInf else NInf)"
| "js_divide NInf (Fin b) = (if 0 \<le> b then NInf else PInf)"
| "js_divide _ _ = NaN"

text \<open>
  Rounding to the nearest double (IEEE 754 binary64, ties to even). \<open>binade x\<close> is the
  exponent \<open>e\<close> with \<open>2 ^ e \<le> \<bar>x\<bar> < 2 ^ (e + 1)\<close>; the doubles of that binade are the
  multiples of \<open>2 ^ (e - 52)\<close>, those below \<open>2 ^ (- 1022)\<close> the multiples of
  \<open>2 ^ (- 1074)\<close>; a result of magnitude \<open>2 ^ 1024\<close> is an infinity.
\<close>

definition pow2 :: "int \<Rightarrow> real" where
  "pow2 k = (if 0 \<le> k then 2 ^ nat k else 1 / 2 ^ nat (- k))"

definition rne :: "real \<Rightarrow> int" where
  "rne y =
     (let f = \<lfloor>y\<rfloor>
      in if y - of_int f < 1 / 2 then f
         else if 1 / 2 < y - of_int f then f + 1
         else if even f then f else f + 1)"

function binade :: "real \<Rightarrow> int" where
  "binade x =
     (if x = 0 then 0
      else if 2 \<le> \<bar>x\<bar> then binade (x / 2) + 1
      else if \<bar>x\<bar> < 1 then binade (x * 2) - 1
      else 0)"
  by pat_completeness auto
termination
proof (relation "measure (\<lambda>x. nat \<bar>\<lfloor>log 2 \<bar>x\<bar>\<rfloor>\<bar>)")
  show "wf (measure (\<lambda>x. nat \<bar>\<lfloor>log 2 \<bar>x\<bar>\<rfloor>\<bar>))" by simp
next
  fix x :: real
  assume "x \<noteq> 0" and big: "2 \<le> \<bar>x\<bar>"
  then have "log 2 \<bar>x / 2\<bar> = log 2 \<bar>x\<bar> - 1"
    by (simp add: log_divide)
  then have half: "\<lfloor>log 2 \<bar>x / 2\<bar>\<rfloor> = \<lfloor>log 2 \<bar>x\<bar>\<rfloor> - 1"
    by simp
  have "1 \<le> log 2 \<bar>x\<bar>"
    using big by (simp add: le_log_iff)
  then have pos: "1 \<le> \<lfloor>log 2 \<bar>x\<bar>\<rfloor>"
    by (simp add: le_floor_iff)
  show "(x / 2, x) \<in> measure (\<lambda>x. nat \<bar>\<lfloor>log 2 \<bar>x\<bar>\<rfloor>\<bar>)"
    unfolding in_measure half using pos by linarith
next
  fix x :: real
  assume nz: "x \<noteq> 0" and "\<not> 2 \<le> \<bar>x\<bar>" and small: "\<bar>x\<bar> < 1"
  then have "log 2 \<bar>x * 2\<bar> = log 2 \<bar>x\<bar> + 1"
    by (simp add: log_mult abs_mult)
  then have twice: "\<lfloor>log 2 \<bar>x * 2\<bar>\<rfloor> = \<lfloor>log 2 \<bar>x\<bar>\<rfloor> + 1"
    by simp
  have neg: "\<lfloor>log 2 \<bar>x\<bar>\<rfloor> < 0"
    using small nz by (simp add: floor_less_iff)
  show "(x * 2, x) \<in> measure (\<lambda>x. nat \<bar>\<lfloor>log 2 \<bar>x\<bar>\<rfloor>\<bar>)"
    unfolding in_measure twice using neg by linarith
qed

declare binade.simps [simp del]

definition fl :: "real \<Rightarrow> jsnum" where
  "fl x =
     (if x = 0 then Fin 0
      else
        (let e = max (binade x) (- 1022);
             q = pow2 (e - 52);
             r = of_int (rne (x / q)) * q
         in if 2 ^ 1024 \<le> \<bar>r\<bar> then (if 0 < x then PInf else NInf) else Fin r))"

fun round_double :: "jsnum \<Rightarrow> jsnum" where
  "round_double (Fin x) = fl x"
| "round_double PInf = PInf"
| "round_double NInf = NInf"
| "round_double NaN = NaN"

definition double_minus :: "jsnum \<Rightarrow> jsnum \<Rightarrow> jsnum" where
  "double_minus a b = round_double (js_minus a b)"

definition double_mult :: "jsnum \<Rightarrow> jsnum \<Rightarrow> jsnum" where
  "double_mult a b = round_double (js_mult a b)"

definition double_divide :: "jsnum \<Rightarrow> jsnum \<Rightarrow> jsnum" where
  "double_divide a b = round_double (js_divide a b)"

text \<open>\<open>Math.min\<close> and \<open>Math.sqrt\<close>.\<close>

fun js_min :: "jsnum \<Rightarrow> jsnum \<Rightarrow> jsnum" where
  "js_min NaN _ = NaN"
| "js_min _ NaN = NaN"
| "js_min NInf _ = NInf"
| "js_min _ NInf = NInf"
| "js_min PInf b = b"
| "js_min a PInf = a"
| "js_min (Fin a) (Fin b) = Fin (min a b)"

fun js_sqrt :: "jsnum \<Rightarrow> jsnum" where
  "js_sqrt (Fin a) = (if a < 0 then NaN else Fin (sqrt a))"
| "js_sqrt PInf = PInf"
| "js_sqrt NInf = NaN"
| "js_sqrt NaN = NaN"

text \<open>The comparisons \<open><\<close> and \<open><=\<close>; \<open>a > b\<close> is \<open>b < a\<close>.\<close>

fun js_less :: "jsnum \<Rightarrow> jsnum \<Rightarrow> bool" where
  "js_less (Fin a) (Fin b) = (a < b)"
| "js_less (Fin a) PInf = True"
| "js_less NInf (Fin b) = True"
| "js_less NInf PInf = True"
| "js_less _ _ = False"

fun js_le :: "jsnum \<Rightarrow> jsnum \<Rightarrow> bool" where
  "js_le (Fin a) (Fin b) = (a \<le> b)"
| "js_le (Fin a) PInf = True"
| "js_le NInf (Fin b) = True"
| "js_le NInf PInf = True"
| "js_le PInf PInf = True"
| "js_le NInf NInf = True"
| "js_le _ _ = False"

definition js_gt :: "jsnum \<Rightarrow> real \<Rightarrow> bool" where
  "js_gt x c = js_less (Fin c) x"

definition js_ge :: "jsnum \<Rightarrow> real \<Rightarrow> bool" where
  "js_ge x c = js_le (Fin c) x"

text \<open>An array read: \<open>undefined\<close> past the end, which arithmetic and comparison treat as \<open>NaN\<close>.\<close>

definition js_nth :: "jsnum list \<Rightarrow> nat \<Rightarrow> jsnum" where
  "js_nth xs i = (if i < length xs then xs ! i else NaN)"

section \<open>Data model (models/types.ts)\<close>

text \<open>
  The six signals have fixed names in the source; the name is modelled as an enumeration.
  The free-text description of a signal is read by no code modelled here and is left out.
\<close>

datatype signal_name =
  RSI_Overbought | Near_Bollinger_Upper | MACD_Dead_Cross
  | MA_Dead_Cross | Below_MA200 | Volume_Stall

record signal =
  name :: signal_name
  strength :: jsnum

text \<open>
  \<open>GainerInfo\<close>: only the symbol and the last price are read; the other fields
  (price change, volumes) live in the extension part of the record.
\<close>

record gainer =
  g_symbol :: string
  g_lastPrice :: real

record candle =
  c_open :: jsnum
  c_high :: jsnum
  c_low :: jsnum
  c_close :: jsnum
  c_volume :: jsnum
  c_closeTime :: int

record analysis_result =
  r_symbol :: string
  r_price :: jsnum
  r_probability :: jsnum
  r_signals :: "signal list"
  r_highestPrice :: "real option"
  r_dropPercent :: "jsnum option"

record tracked =
  symbol :: string
  lastPrice :: real
  highestPrice :: real
  lastUpdateTime :: int
  signals :: "signal list"
  downtrend :: bool
  downtrendConfirmed :: bool
  downtrendNotified :: bool

text \<open>
  The tracked-symbol map is a JavaScript \<open>Map\<close>: keys are unique, iteration is in
  insertion order, \<open>set\<close> on a present key keeps its position. It is an association
  list updated with \<open>AList.update\<close>, which does exactly that.
\<close>

type_synonym tracked_map = "(string \<times> tracked) list"

definition fresh_tracked :: "string \<Rightarrow> real \<Rightarrow> int \<Rightarrow> tracked" where
  "fresh_tracked s p now =
     \<lparr>symbol = s, lastPrice = p, highestPrice = p, lastUpdateTime = now, signals = [],
      downtrend = False, downtrendConfirmed = False, downtrendNotified = False\<rparr>"

definition reset_high :: "real \<Rightarrow> tracked \<Rightarrow> tracked" where
  "reset_high p t =
     t\<lparr>highestPrice := p, downtrend := False, downtrendConfirmed := False,
       downtrendNotified := False\<rparr>"

text \<open>
  \<open>((highestPrice - price) / highestPrice) * 100\<close>, as both loops compute it: three
  operations on doubles, each rounded.
\<close>

definition dropPercentage :: "real \<Rightarrow> real \<Rightarrow> jsnum" where
  "dropPercentage h p =
     double_mult (double_divide (double_minus (Fin h) (Fin p)) (Fin h)) (Fin 100)"

section \<open>Technical indicators (the module analyzer.ts imports as technical.ts)\<close>

text \<open>
  The indicators return arrays padded in front, so that entry \<open>i\<close> belongs to candle
  \<open>i\<close>. The pad is \<open>NaN\<close>; \<open>calculateRSI\<close> pads with \<open>null\<close>, which is modelled as
  \<open>NaN\<close> too because its entries are only ever compared with \<open>> 70\<close>, false for both.
  All arithmetic is on \<open>jsnum\<close>, so a candle field may hold any JavaScript number.
\<close>

definition closes :: "candle list \<Rightarrow> jsnum list" where
  "closes candles = map c_close candles"

definition rsi_value :: "jsnum \<Rightarrow> jsnum \<Rightarrow> jsnum" where
  "rsi_value gains losses =
     (if losses = Fin 0 then Fin 100
      else js_minus (Fin 100)
             (js_divide (Fin 100) (js_plus (Fin 1) (js_divide gains losses))))"

definition rsi_first :: "jsnum list \<Rightarrow> nat \<Rightarrow> jsnum \<times> jsnum \<Rightarrow> jsnum \<times> jsnum" where
  "rsi_first cl i gl =
     (case gl of (gains, losses) \<Rightarrow>
        (let diff = js_minus (js_nth cl i) (js_nth cl (i - 1))
         in if js_le (Fin 0) diff then (js_plus gains diff, losses)
            else (gains, js_minus losses diff)))"

definition rsi_smooth :: "jsnum list \<Rightarrow> nat \<Rightarrow> nat \<Rightarrow> jsnum \<times> jsnum \<Rightarrow> jsnum \<times> jsnum" where
  "rsi_smooth cl period i gl =
     (case gl of (gains, losses) \<Rightarrow>
        (let diff = js_minus (js_nth cl i) (js_nth cl (i - 1));
             p1 = Fin (real period - 1);
             p = Fin (real period)
         in if js_le (Fin 0) diff
            then (js_divide (js_plus (js_mult gains p1) diff) p,
                  js_divide (js_mult losses p1) p)
            else (js_divide (js_mult gains p1) p,
                  js_divide (js_minus (js_mult losses p1) diff) p)))"

fun rsi_rest :: "jsnum list \<Rightarrow> nat \<Rightarrow> nat list \<Rightarrow> jsnum \<times> jsnum \<Rightarrow> jsnum list" where
  "rsi_rest cl period [] gl = []"
| "rsi_rest cl period (i # is) gl =
     (let gl' = rsi_smooth cl period i gl
      in rsi_value (fst gl') (snd gl') # rsi_rest cl period is gl')"

definition calculateRSI :: "candle list \<Rightarrow> nat \<Rightarrow> jsnum list" where
  "calculateRSI candles period =
     (if length candles < period + 1 then []
      else
        (let cl = closes candles;
             gl = fold (rsi_first cl) [1..<period + 1] (Fin 0, Fin 0)
         in replicate period NaN
            @ (rsi_value (fst gl) (snd gl) # rsi_rest cl period [period + 1..<length cl] gl)))"

text \<open>\<open>sum\<close> of \<open>data[i - j]\<close> for \<open>j\<close> from 0 up to \<open>period - 1\<close>, starting from 0.\<close>

definition window_sum :: "jsnum list \<Rightarrow> nat \<Rightarrow> nat \<Rightarrow> jsnum" where
  "window_sum data period i =
     fold (\<lambda>j sum. js_plus sum (js_nth data (i - j))) [0..<period] (Fin 0)"

definition calculateMA :: "jsnum list \<Rightarrow> nat \<Rightarrow> jsnum list" where
  "calculateMA data period =
     map (\<lambda>i. if int i < int period - 1 then NaN
              else js_divide (window_sum data period i) (Fin (real period)))
       [0..<length data]"

text \<open>
  \<open>calculateEMA\<close> is called with the periods 12, 26 and 9; with period 0 the source
  raises at \<open>Array(-1)\<close>, which no call reaches and the model does not represent.
\<close>

fun ema_rest :: "real \<Rightarrow> jsnum list \<Rightarrow> nat list \<Rightarrow> jsnum \<Rightarrow> jsnum list" where
  "ema_rest k data [] prev = []"
| "ema_rest k data (i # is) prev =
     (let e = js_plus (js_mult (js_nth data i) (Fin k)) (js_mult prev (Fin (1 - k)))
      in e # ema_rest k data is e)"

definition calculateEMA :: "jsnum list \<Rightarrow> nat \<Rightarrow> jsnum list" where
  "calculateEMA data period =
     (let k = 2 / (real period + 1);
          sum = fold (\<lambda>i sum. js_plus sum (js_nth data i)) [0..<period] (Fin 0);
          first = js_divide sum (Fin (real period))
      in replicate (period - 1) NaN
         @ (first # ema_rest k data [period..<length data] first))"

record macd_result =
  MACD :: "jsnum list"
  signal_line :: "jsnum list"
  histogram :: "jsnum list"

fun signal_back :: "jsnum list \<Rightarrow> jsnum list \<Rightarrow> nat \<Rightarrow> jsnum list" where
  "signal_back [] validSignal validIndex = []"
| "signal_back (v # vs) validSignal validIndex =
     (if v \<noteq> NaN \<and> validIndex < length validSignal
      then validSignal ! validIndex # signal_back vs validSignal (validIndex + 1)
      else NaN # signal_back vs validSignal validIndex)"

definition calculateMACD :: "candle list \<Rightarrow> nat \<Rightarrow> nat \<Rightarrow> nat \<Rightarrow> macd_result" where
  "calculateMACD candles fastPeriod slowPeriod signalPeriod =
     (let cl = closes candles;
          fastEMA = calculateEMA cl fastPeriod;
          slowEMA = calculateEMA cl slowPeriod;
          macd = map (\<lambda>i. if js_nth fastEMA i = NaN \<or> js_nth slowEMA i = NaN then NaN
                          else js_minus (js_nth fastEMA i) (js_nth slowEMA i))
                   [0..<length cl];
          validMACD = filter (\<lambda>v. v \<noteq> NaN) macd;
          validSignal = calculateEMA validMACD signalPeriod;
          sig = signal_back macd validSignal 0
      in \<lparr>MACD = macd, signal_line = sig,
          histogram = map (\<lambda>i. if js_nth macd i = NaN \<or> js_nth sig i = NaN then NaN
                               else js_minus (js_nth macd i) (js_nth sig i))
                        [0..<length macd]\<rparr>)"

record bands =
  upper :: "jsnum list"
  middle :: "jsnum list"
  lower :: "jsnum list"

definition stdDev :: "jsnum list \<Rightarrow> jsnum list \<Rightarrow> nat \<Rightarrow> nat \<Rightarrow> jsnum" where
  "stdDev cl mid period i =
     (let sum = fold (\<lambda>j sum.
                        (let d = js_minus (js_nth cl (i - j)) (js_nth mid i)
                         in js_plus sum (js_mult d d)))
                  [0..<period] (Fin 0)
      in js_sqrt (js_divide sum (Fin (real period))))"

definition calculateBollingerBands :: "candle list \<Rightarrow> nat \<Rightarrow> real \<Rightarrow> bands" where
  "calculateBollingerBands candles period multiplier =
     (let cl = closes candles;
          mid = calculateMA cl period
      in \<lparr>upper = map (\<lambda>i. if int i < int period - 1 then NaN
                           else js_plus (js_nth mid i)
                                  (js_mult (Fin multiplier) (stdDev cl mid period i)))
                    [0..<length cl],
          middle = mid,
          lower = map (\<lambda>i. if int i < int period - 1 then NaN
                           else js_minus (js_nth mid i)
                                  (js_mult (Fin multiplier) (stdDev cl mid period i)))
                    [0..<length cl]\<rparr>)"

text \<open>
  One of the three loops of \<open>calculateMovingAverages\<close>:
  \<open>prices.slice(i - (n - 1), i + 1).reduce((a, b) => a + b, 0) / n\<close> from index \<open>n - 1\<close> on.
\<close>

definition moving_average :: "nat \<Rightarrow> jsnum list \<Rightarrow> jsnum list" where
  "moving_average n prices =
     map (\<lambda>i. if i < n - 1 then NaN
              else js_divide
                     (fold (\<lambda>b a. js_plus a b) (take n (drop (i - (n - 1)) prices)) (Fin 0))
                     (Fin (real n)))
       [0..<length prices]"

record averages =
  ma20 :: "jsnum list"
  ma50 :: "jsnum list"
  ma200 :: "jsnum list"

definition calculateMovingAverages :: "candle list \<Rightarrow> averages" where
  "calculateMovingAverages candles =
     (let prices = closes candles
      in \<lparr>ma20 = moving_average 20 prices, ma50 = moving_average 50 prices,
          ma200 = moving_average 200 prices\<rparr>)"

section \<open>Signal scoring (indicators/analyzer.ts)\<close>

datatype exn = TypeError | ApiError string

text \<open>
  The six checks push onto \<open>signals\<close> and add to \<open>totalWeight\<close>; the pair is threaded
  through them in the order of the source.
\<close>

type_synonym scoring = "signal list \<times> jsnum"

definition push_signal :: "signal_name \<Rightarrow> jsnum \<Rightarrow> scoring \<Rightarrow> scoring" where
  "push_signal n s st =
     (case st of (sigs, totalWeight) \<Rightarrow>
        (sigs @ [\<lparr>name = n, strength = s\<rparr>], js_plus totalWeight s))"

definition check_rsi :: "jsnum list \<Rightarrow> nat \<Rightarrow> scoring \<Rightarrow> scoring" where
  "check_rsi rsi lastIndex st =
     (if js_less (Fin 70) (js_nth rsi lastIndex)
      then push_signal RSI_Overbought
             (js_min (Fin 100) (js_mult (js_minus (js_nth rsi lastIndex) (Fin 70)) (Fin 3.33))) st
      else st)"

definition check_bollinger :: "bands \<Rightarrow> candle \<Rightarrow> nat \<Rightarrow> scoring \<Rightarrow> scoring" where
  "check_bollinger bb lastCandle lastIndex st =
     (let priceToUpperRatio =
            js_divide (js_minus (c_close lastCandle) (js_nth (middle bb) lastIndex))
              (js_minus (js_nth (upper bb) lastIndex) (js_nth (middle bb) lastIndex))
      in if js_less (Fin 0.8) priceToUpperRatio
         then push_signal Near_Bollinger_Upper
                (js_min (Fin 100) (js_mult priceToUpperRatio (Fin 100))) st
         else st)"

definition check_macd :: "macd_result \<Rightarrow> nat \<Rightarrow> scoring \<Rightarrow> scoring" where
  "check_macd macd lastIndex st =
     (if js_less (js_nth (MACD macd) lastIndex) (js_nth (signal_line macd) lastIndex)
         \<and> js_less (js_nth (signal_line macd) (lastIndex - 1)) (js_nth (MACD macd) (lastIndex - 1))
      then push_signal MACD_Dead_Cross (Fin 90) st
      else st)"

definition check_ma_cross :: "averages \<Rightarrow> nat \<Rightarrow> scoring \<Rightarrow> scoring" where
  "check_ma_cross mas lastIndex st =
     (if js_less (js_nth (ma20 mas) lastIndex) (js_nth (ma50 mas) lastIndex)
         \<and> js_less (js_nth (ma50 mas) (lastIndex - 1)) (js_nth (ma20 mas) (lastIndex - 1))
      then push_signal MA_Dead_Cross (Fin 85) st
      else st)"

definition check_ma200 :: "averages \<Rightarrow> candle list \<Rightarrow> nat \<Rightarrow> scoring \<Rightarrow> scoring" where
  "check_ma200 mas candles lastIndex st =
     (if js_less (c_close (candles ! lastIndex)) (js_nth (ma200 mas) lastIndex)
         \<and> js_less (js_nth (ma200 mas) (lastIndex - 1)) (c_close (candles ! (lastIndex - 1)))
      then push_signal Below_MA200 (Fin 80) st
      else st)"

definition check_volume :: "candle list \<Rightarrow> nat \<Rightarrow> scoring \<Rightarrow> scoring" where
  "check_volume candles lastIndex st =
     (if js_less (js_mult (c_volume (candles ! (lastIndex - 1))) (Fin 1.5))
           (c_volume (candles ! lastIndex))
         \<and> js_le (c_close (candles ! lastIndex))
             (js_mult (c_close (candles ! (lastIndex - 1))) (Fin 1.01))
      then push_signal Volume_Stall (Fin 75) st
      else st)"

definition detect_signals :: "candle list \<Rightarrow> scoring" where
  "detect_signals candles =
     (let rsi = calculateRSI candles 14;
          bb = calculateBollingerBands candles 20 2;
          macd = calculateMACD candles 12 26 9;
          mas = calculateMovingAverages candles;
          lastIndex = length candles - 1;
          lastCandle = candles ! lastIndex
      in check_volume candles lastIndex
           (check_ma200 mas candles lastIndex
             (check_ma_cross mas lastIndex
               (check_macd macd lastIndex
                 (check_bollinger bb lastCandle lastIndex
                   (check_rsi rsi lastIndex ([], Fin 0)))))))"

text \<open>Lines 165 to 184: the probability out of the signals pushed and their total weight.\<close>

definition score :: "scoring \<Rightarrow> jsnum" where
  "score st =
     (case st of (sigs, totalWeight) \<Rightarrow>
        (if length sigs > 0
         then
           (let p = js_min (Fin 100)
                      (js_mult (js_divide totalWeight (Fin (real (length sigs) * 100))) (Fin 100))
            in if length sigs \<ge> 2 then js_min (Fin 100) (js_mult p (Fin 1.2)) else p)
         else Fin 0))"

text \<open>
  \<open>analyzeSymbol\<close>. With no candle the first statement reads \<open>.close\<close> of
  \<open>undefined\<close>; with one candle the volume check reads \<open>.volume\<close> of \<open>candles[-1]\<close>:
  both raise a \<open>TypeError\<close>. From two candles on every read of \<open>candles\<close> is in range.
  The fields \<open>timestamp\<close> (the clock) and \<open>timeframe\<close> (the constant \<open>1h\<close>) of the
  result are read by no code modelled here and are left out.
\<close>

definition analyzeSymbol :: "string \<Rightarrow> candle list \<Rightarrow> exn + analysis_result" where
  "analyzeSymbol s candles =
     (if length candles < 2 then Inl TypeError
      else
        (let st = detect_signals candles
         in Inr \<lparr>r_symbol = s,
                 r_price = c_close (candles ! (length candles - 1)),
                 r_probability = score st,
                 r_signals = fst st,
                 r_highestPrice = None,
                 r_dropPercent = None\<rparr>))"

text \<open>
  \<open>analyzeSymbols\<close>. The candle fetch is the outside world: \<open>fetchCandles\<close> maps the
  symbol, the interval and the limit to the candles, or to the error it raises. The body
  of the \<open>try\<close> block is \<open>analyze_one\<close>: \<open>Inl\<close> is an exception on its way to the
  \<open>catch\<close>, \<open>Inr None\<close> the \<open>continue\<close>, \<open>Inr (Some r)\<close> the result pushed. The
  warnings logged are returned beside the results.
\<close>

type_synonym fetcher = "string \<Rightarrow> string \<Rightarrow> nat \<Rightarrow> exn + candle list"

datatype warning = Insufficient_history string | Analysis_failed string exn

definition analyze_one ::
  "fetcher \<Rightarrow> string \<Rightarrow> 'a gainer_scheme \<Rightarrow> exn + analysis_result option" where
  "analyze_one fetchCandles interval symbolInfo =
     (case fetchCandles (g_symbol symbolInfo) interval 100 of
        Inl e \<Rightarrow> Inl e
      | Inr candles \<Rightarrow>
          (if length candles < 30 then Inr None
           else
             (case analyzeSymbol (g_symbol symbolInfo) candles of
                Inl e \<Rightarrow> Inl e
              | Inr result \<Rightarrow> Inr (Some (result\<lparr>r_price := Fin (g_lastPrice symbolInfo)\<rparr>)))))"

definition analyze_step ::
  "fetcher \<Rightarrow> string \<Rightarrow> 'a gainer_scheme
     \<Rightarrow> analysis_result list \<times> warning list \<Rightarrow> analysis_result list \<times> warning list" where
  "analyze_step fetchCandles interval symbolInfo st =
     (case st of (results, warnings) \<Rightarrow>
        (case analyze_one fetchCandles interval symbolInfo of
           Inl e \<Rightarrow> (results, warnings @ [Analysis_failed (g_symbol symbolInfo) e])
         | Inr None \<Rightarrow> (results, warnings @ [Insufficient_history (g_symbol symbolInfo)])
         | Inr (Some result) \<Rightarrow> (results @ [result], warnings)))"

definition analyzeSymbols ::
  "fetcher \<Rightarrow> 'a gainer_scheme list \<Rightarrow> string \<Rightarrow> analysis_result list \<times> warning list" where
  "analyzeSymbols fetchCandles symbols interval =
     fold (analyze_step fetchCandles interval) symbols ([], [])"

section \<open>The monitoring loop (index.ts, startMonitoring)\<close>

text \<open>
  Lines 100 to 116: an already tracked symbol seen on the gainers list. \<open>now\<close> is
  the reading of \<open>Date.now()\<close> at that moment.
\<close>

definition monitor_update :: "'a gainer_scheme \<Rightarrow> int \<Rightarrow> tracked \<Rightarrow> tracked" where
  "monitor_update g now t =
     (let t1 = (if g_lastPrice g > highestPrice t then reset_high (g_lastPrice g) t else t)
      in t1\<lparr>lastPrice := g_lastPrice g, lastUpdateTime := now\<rparr>)"

text \<open>Lines 84 to 117, one turn of the loop over the gainers list.\<close>

definition monitor_track :: "'a gainer_scheme \<times> int \<Rightarrow> tracked_map \<Rightarrow> tracked_map" where
  "monitor_track gn m =
     (case gn of (g, now) \<Rightarrow>
        (case map_of m (g_symbol g) of
           None \<Rightarrow> AList.update (g_symbol g) (fresh_tracked (g_symbol g) (g_lastPrice g) now) m
         | Some t \<Rightarrow> AList.update (g_symbol g) (monitor_update g now t) m))"

definition track_gainers :: "('a gainer_scheme \<times> int) list \<Rightarrow> tracked_map \<Rightarrow> tracked_map" where
  "track_gainers gs m = fold monitor_track gs m"

text \<open>An element of \<open>weakBullishSymbols\<close> and of \<open>confirmedDowntrendSymbols\<close>.\<close>

record alert =
  a_symbol :: string
  a_probability :: jsnum
  a_lastPrice :: real
  a_highestPrice :: real
  a_dropPercentage :: jsnum
  a_signals :: "signal list"

text \<open>
  Lines 137 to 177: one analysis result applied to its tracked symbol. The result is the
  new state, the weak-bullish alerts pushed and the confirmed-downtrend alerts pushed.
\<close>

definition monitor_result :: "analysis_result \<Rightarrow> tracked \<Rightarrow> tracked \<times> alert list \<times> alert list" where
  "monitor_result r t =
     (let t1 = t\<lparr>signals := r_signals r\<rparr>;
          dp = dropPercentage (highestPrice t1) (lastPrice t1);
          a = \<lparr>a_symbol = r_symbol r, a_probability = r_probability r,
               a_lastPrice = lastPrice t1, a_highestPrice = highestPrice t1,
               a_dropPercentage = dp, a_signals = r_signals r\<rparr>;
          weak = (js_gt (r_probability r) 70 \<and> lastPrice t1 < highestPrice t1 \<and> \<not> downtrend t1);
          t2 = (if weak then t1\<lparr>downtrend := True\<rparr> else t1);
          conf = (js_gt dp 5 \<and> \<not> downtrendConfirmed t2);
          t3 = (if conf then t2\<lparr>downtrendConfirmed := True\<rparr> else t2);
          notify = (conf \<and> \<not> downtrendNotified t3);
          t4 = (if notify then t3\<lparr>downtrendNotified := True\<rparr> else t3)
      in (t4, if weak then [a] else [], if notify then [a] else []))"

text \<open>Lines 133 to 178, one turn of the loop over the results, on the whole map.\<close>

definition apply_result ::
  "analysis_result \<Rightarrow> tracked_map \<times> alert list \<times> alert list
     \<Rightarrow> tracked_map \<times> alert list \<times> alert list" where
  "apply_result r st =
     (case st of (m, weak, conf) \<Rightarrow>
        (case map_of m (r_symbol r) of
           None \<Rightarrow> (m, weak, conf)
         | Some t \<Rightarrow>
             (case monitor_result r t of (t', w, c) \<Rightarrow>
                (AList.update (r_symbol r) t' m, weak @ w, conf @ c))))"

definition process_results ::
  "analysis_result list \<Rightarrow> tracked_map \<Rightarrow> tracked_map \<times> alert list \<times> alert list" where
  "process_results rs m = fold apply_result rs (m, [], [])"

text \<open>Lines 262 to 272: the clean-up at the end of a cycle.\<close>

definition oneWeekInMs :: int where
  "oneWeekInMs = 7 * 24 * 60 * 60 * 1000"

definition stale :: "int \<Rightarrow> tracked \<Rightarrow> bool" where
  "stale now d = (now - lastUpdateTime d > oneWeekInMs)"

definition cleanup :: "int \<Rightarrow> tracked_map \<Rightarrow> tracked_map" where
  "cleanup now m = filter (\<lambda>(s, d). \<not> stale now d) m"

definition cleanedCount :: "int \<Rightarrow> tracked_map \<Rightarrow> nat" where
  "cleanedCount now m = length (filter (\<lambda>(s, d). stale now d) m)"

text \<open>
  Lines 58 to 77: the tracking state saved by an earlier cycle is read back. An item is
  parsed JSON: every field may be missing, and the source tests them for truthiness.
\<close>

record history_item =
  h_symbol :: "string option"
  h_lastPrice :: "real option"
  h_highestPrice :: "real option"
  h_timestamp :: "int option"
  h_signals :: "signal list option"
  h_downtrend :: "bool option"
  h_downtrendConfirmed :: "bool option"
  h_downtrendNotified :: "bool option"

definition truthy_price :: "real option \<Rightarrow> real option" where
  "truthy_price x = (case x of Some p \<Rightarrow> if p = 0 then None else Some p | None \<Rightarrow> None)"

definition restore_item :: "history_item \<times> int \<Rightarrow> tracked_map \<Rightarrow> tracked_map" where
  "restore_item hn m =
     (case hn of (item, now) \<Rightarrow>
        (case (h_symbol item, truthy_price (h_lastPrice item)) of
           (Some s, Some p) \<Rightarrow>
             (if s = [] then m
              else AList.update s
                     \<lparr>symbol = s, lastPrice = p,
                      highestPrice = (case truthy_price (h_highestPrice item) of
                                        Some h \<Rightarrow> h | None \<Rightarrow> p),
                      lastUpdateTime = (case h_timestamp item of
                                          Some ts \<Rightarrow> if ts = 0 then now else ts
                                        | None \<Rightarrow> now),
                      signals = (case h_signals item of Some sg \<Rightarrow> sg | None \<Rightarrow> []),
                      downtrend = (h_downtrend item = Some True),
                      downtrendConfirmed = (h_downtrendConfirmed item = Some True),
                      downtrendNotified = (h_downtrendNotified item = Some True)\<rparr> m)
         | _ \<Rightarrow> m))"

text \<open>
  One call of \<open>startMonitoring\<close>, up to the timer that schedules the next one. The
  outside world is given as arguments: the history read back and the gainers list, each
  item with the reading of the clock when it is handled, the candle fetch, and the
  clock at the clean-up. \<open>fetchGainersList\<close> may raise; then the \<open>catch\<close> of
  \<open>startMonitoring\<close> logs, and the cycle ends with the map as the history left it.
  The two alert lists are afterwards sorted and passed to \<open>notify\<close>, one call for
  each element.
\<close>

definition symbolsToAnalyze :: "tracked_map \<Rightarrow> gainer list" where
  "symbolsToAnalyze m = map (\<lambda>(k, item). \<lparr>g_symbol = symbol item, g_lastPrice = lastPrice item\<rparr>) m"

definition before_cleanup ::
  "(history_item \<times> int) list \<Rightarrow> ('a gainer_scheme \<times> int) list \<Rightarrow> fetcher \<Rightarrow> string
     \<Rightarrow> tracked_map \<Rightarrow> tracked_map \<times> alert list \<times> alert list" where
  "before_cleanup historicalData gainersList fetchCandles interval m =
     (let m0 = fold restore_item historicalData m;
          m1 = track_gainers gainersList m0;
          results = fst (analyzeSymbols fetchCandles (symbolsToAnalyze m1) interval)
      in process_results results m1)"

record cycle =
  weakBullishSymbols :: "alert list"
  confirmedDowntrendSymbols :: "alert list"
  trackingData :: "tracked list"
  cleaned :: nat

definition startMonitoring ::
  "(history_item \<times> int) list \<Rightarrow> exn + ('a gainer_scheme \<times> int) list \<Rightarrow> fetcher \<Rightarrow> string
     \<Rightarrow> int \<Rightarrow> tracked_map \<Rightarrow> tracked_map \<times> (exn + cycle)" where
  "startMonitoring historicalData gainers fetchCandles interval now m =
     (case gainers of
        Inl e \<Rightarrow> (fold restore_item historicalData m, Inl e)
      | Inr gainersList \<Rightarrow>
          (case before_cleanup historicalData gainersList fetchCandles interval m of
             (m2, weak, conf) \<Rightarrow>
               (cleanup now m2,
                Inr \<lparr>weakBullishSymbols = weak, confirmedDowntrendSymbols = conf,
                     trackingData = map snd m2, cleaned = cleanedCount now m2\<rparr>)))"

section \<open>The backtest day loop (backtest/index.ts, processDay)\<close>

text \<open>
  Lines 112 to 158: an already tracked symbol on the day's gainers list. \<open>res\<close> is
  \<open>analysisResults.find\<close> for the symbol, \<open>day\<close> the timestamp of the date.
\<close>

definition backtest_update ::
  "real \<Rightarrow> int \<Rightarrow> analysis_result option \<Rightarrow> tracked \<Rightarrow> tracked" where
  "backtest_update currentPrice day res t =
     (let t1 = (if currentPrice > highestPrice t then reset_high currentPrice t else t);
          t2 = (if currentPrice < lastPrice t1 \<and> \<not> downtrend t1
                then (case res of
                        Some r \<Rightarrow> t1\<lparr>downtrend := True, signals := r_signals r\<rparr>
                      | None \<Rightarrow> t1\<lparr>downtrend := True\<rparr>)
                else t1);
          dropPercent = dropPercentage (highestPrice t2) currentPrice;
          t3 = (if downtrend t2 \<and> js_ge dropPercent 5 \<and> \<not> downtrendConfirmed t2
                then t2\<lparr>downtrendConfirmed := True\<rparr> else t2)
      in t3\<lparr>lastPrice := currentPrice, lastUpdateTime := day\<rparr>)"

definition find_result :: "analysis_result list \<Rightarrow> string \<Rightarrow> analysis_result option" where
  "find_result rs s = find (\<lambda>r. r_symbol r = s) rs"

definition backtest_track ::
  "int \<Rightarrow> analysis_result list \<Rightarrow> 'a gainer_scheme \<Rightarrow> tracked_map \<Rightarrow> tracked_map" where
  "backtest_track day rs g m =
     (case map_of m (g_symbol g) of
        Some t \<Rightarrow>
          AList.update (g_symbol g)
            (backtest_update (g_lastPrice g) day (find_result rs (g_symbol g)) t) m
      | None \<Rightarrow> AList.update (g_symbol g) (fresh_tracked (g_symbol g) (g_lastPrice g) day) m)"

text \<open>
  Lines 178 to 227, one entry of the map: the uptrend-failure signals pushed, the
  confirmed-downtrend signals pushed, and the entry afterwards.
\<close>

definition backtest_sweep ::
  "string \<Rightarrow> analysis_result option \<Rightarrow> tracked
     \<Rightarrow> tracked \<times> analysis_result list \<times> analysis_result list" where
  "backtest_sweep s res t =
     (let up =
            (if downtrend t \<and> \<not> downtrendNotified t
             then [case res of
                     Some r \<Rightarrow> r\<lparr>r_highestPrice := Some (highestPrice t)\<rparr>
                   | None \<Rightarrow>
                       \<lparr>r_symbol = s, r_price = Fin (lastPrice t), r_probability = Fin 70,
                        r_signals = signals t, r_highestPrice = Some (highestPrice t),
                        r_dropPercent = None\<rparr>]
             else []);
          dropPercent = dropPercentage (highestPrice t) (lastPrice t);
          notify = (downtrendConfirmed t \<and> \<not> downtrendNotified t);
          conf =
            (if notify
             then [case res of
                     Some r \<Rightarrow>
                       r\<lparr>r_highestPrice := Some (highestPrice t),
                         r_dropPercent := Some dropPercent\<rparr>
                   | None \<Rightarrow>
                       \<lparr>r_symbol = s, r_price = Fin (lastPrice t), r_probability = Fin 90,
                        r_signals = signals t, r_highestPrice = Some (highestPrice t),
                        r_dropPercent = Some dropPercent\<rparr>]
             else []);
          t' = (if notify then t\<lparr>downtrendNotified := True\<rparr> else t)
      in (t', up, conf))"

text \<open>
  \<open>processDay\<close> up to the two signal lists: the analysis of the day's gainers, the loop
  over the gainers, then the loop over the map. \<open>day\<close> is the timestamp of the date.
  The lists are afterwards sorted by probability, saved and logged.
\<close>

definition sweep_all ::
  "analysis_result list \<Rightarrow> tracked_map
     \<Rightarrow> (string \<times> tracked \<times> analysis_result list \<times> analysis_result list) list" where
  "sweep_all analysisResults m =
     map (\<lambda>(s, t). (s, backtest_sweep s (find_result analysisResults s) t)) m"

definition processDay ::
  "int \<Rightarrow> 'a gainer_scheme list \<Rightarrow> fetcher \<Rightarrow> string \<Rightarrow> tracked_map
     \<Rightarrow> tracked_map \<times> analysis_result list \<times> analysis_result list" where
  "processDay day gainers fetchCandles interval m =
     (let analysisResults = fst (analyzeSymbols fetchCandles gainers interval);
          m1 = fold (backtest_track day analysisResults) gainers m;
          swept = sweep_all analysisResults m1
      in (map (\<lambda>(s, x). (s, fst x)) swept,
          concat (map (\<lambda>(s, x). fst (snd x)) swept),
          concat (map (\<lambda>(s, x). snd (snd x)) swept)))"

section \<open>The life of one tracked symbol\<close>

text \<open>
  What the two loops do to a single entry of the map, as a sequence of events. In the
  monitoring loop the symbol is seen on the gainers list or an analysis result is applied
  to it. In the backtest the symbol is on the day's gainers list, or the loop over the
  map at the end of the day passes over it. A run starts from any state and collects the
  confirmed-downtrend alerts it produces; the tracked symbols the program can hold are
  the states a run reaches from a fresh one.
\<close>

datatype monitor_event = Seen gainer int | Analysed analysis_result

fun monitor_step :: "monitor_event \<Rightarrow> tracked \<times> alert list \<Rightarrow> tracked \<times> alert list" where
  "monitor_step (Seen g now) (t, alerts) = (monitor_update g now t, alerts)"
| "monitor_step (Analysed r) (t, alerts) =
     (fst (monitor_result r t), alerts @ snd (snd (monitor_result r t)))"

definition monitor_run :: "monitor_event list \<Rightarrow> tracked \<Rightarrow> tracked \<times> alert list" where
  "monitor_run evs t = fold monitor_step evs (t, [])"

fun monitor_below :: "real \<Rightarrow> monitor_event \<Rightarrow> bool" where
  "monitor_below h (Seen g now) = (g_lastPrice g \<le> h)"
| "monitor_below h (Analysed r) = True"

datatype backtest_event =
  Gained real int "analysis_result option" | Swept string "analysis_result option"

fun backtest_step ::
  "backtest_event \<Rightarrow> tracked \<times> analysis_result list \<Rightarrow> tracked \<times> analysis_result list" where
  "backtest_step (Gained p day res) (t, alerts) = (backtest_update p day res t, alerts)"
| "backtest_step (Swept s res) (t, alerts) =
     (fst (backtest_sweep s res t), alerts @ snd (snd (backtest_sweep s res t)))"

definition backtest_run ::
  "backtest_event list \<Rightarrow> tracked \<Rightarrow> tracked \<times> analysis_result list" where
  "backtest_run evs t = fold backtest_step evs (t, [])"

fun backtest_below :: "real \<Rightarrow> backtest_event \<Rightarrow> bool" where
  "backtest_below h (Gained p day res) = (p \<le> h)"
| "backtest_below h (Swept s res) = True"

text \<open>
  Two facts about the states a run reaches from a fresh symbol, one for each loop; both
  are proved invariant below.
\<close>

definition monitor_invariant :: "tracked \<Rightarrow> bool" where
  "monitor_invariant t =
     (lastPrice t \<le> highestPrice t \<and> (downtrendNotified t \<longleftrightarrow> downtrendConfirmed t))"

definition backtest_invariant :: "tracked \<Rightarrow> bool" where
  "backtest_invariant t =
     (lastPrice t \<le> highestPrice t
      \<and> (downtrendNotified t \<longrightarrow> downtrendConfirmed t)
      \<and> (downtrendConfirmed t \<longrightarrow> downtrend t)
      \<and> (\<not> downtrend t \<longrightarrow> lastPrice t = highestPrice t))"

section \<open>Auxiliary notions\<close>

text \<open>
  The scoring state the six checks keep: every strength pushed so far is a finite number
  in \<open>(0, 100]\<close>, listed in \<open>ws\<close>, and \<open>totalWeight\<close> is their sum.
\<close>

definition well_scored :: "scoring \<Rightarrow> real list \<Rightarrow> bool" where
  "well_scored st ws =
     (map strength (fst st) = map Fin ws \<and> snd st = Fin (sum_list ws)
      \<and> list_all (\<lambda>w. 0 < w \<and> w \<le> 100) ws)"

text \<open>
  Two series of thirty hourly candles, used as concrete inputs below. Each candle is
  flat (open, high, low and close equal); the last one doubles the volume at an unchanged
  price. The first series moves 10, 12, 8 and then stays at 10; the second moves 6, 12,
  12 and then stays at 10.
\<close>

definition quiet_candles :: "candle list" where
  "quiet_candles =
     map (\<lambda>(p, v). \<lparr>c_open = Fin p, c_high = Fin p, c_low = Fin p, c_close = Fin p,
                      c_volume = Fin v, c_closeTime = 0\<rparr>)
       [
        (10, 1), (12, 1), (8, 1), (10, 1), (10, 1), (10, 1), (10, 1), (10, 1), (10, 1),
        (10, 1), (10, 1), (10, 1), (10, 1), (10, 1), (10, 1), (10, 1), (10, 1),
        (10, 1), (10, 1), (10, 1), (10, 1), (10, 1), (10, 1), (10, 1), (10, 1),
        (10, 1), (10, 1), (10, 1), (10, 1), (10, 2)]"


text \<open>
  In the backtest the drop percentage of a symbol that is not confirmed, computed from
  its stored \<open>highestPrice\<close> and \<open>lastPrice\<close>, fails the test \<open>>= 5\<close>; proved invariant
  below.
\<close>

definition unconfirmed_invariant :: "tracked \<Rightarrow> bool" where
  "unconfirmed_invariant t =
     (\<not> downtrendConfirmed t
        \<longrightarrow> \<not> js_ge (dropPercentage (highestPrice t) (lastPrice t)) 5)"

section \<open>Properties of the tracking state\<close>

lemma highest_monitor_update:
  "highestPrice (monitor_update g now t) = max (highestPrice t) (g_lastPrice g)"
  by (simp add: monitor_update_def reset_high_def Let_def max_def)

lemma highest_monitor_result: "highestPrice (fst (monitor_result r t)) = highestPrice t"
  by (simp add: monitor_result_def Let_def)

lemma highest_backtest_update:
  "highestPrice (backtest_update p day res t) = max (highestPrice t) p"
  by (simp add: backtest_update_def reset_high_def Let_def max_def split: option.splits)

lemma highest_backtest_sweep: "highestPrice (fst (backtest_sweep s res t)) = highestPrice t"
  by (simp add: backtest_sweep_def Let_def)

lemma last_monitor_update: "lastPrice (monitor_update g now t) = g_lastPrice g"
  by (simp add: monitor_update_def reset_high_def Let_def)

lemma last_monitor_result: "lastPrice (fst (monitor_result r t)) = lastPrice t"
  by (simp add: monitor_result_def Let_def)

lemma last_backtest_update: "lastPrice (backtest_update p day res t) = p"
  by (simp add: backtest_update_def Let_def)

lemma last_backtest_sweep: "lastPrice (fst (backtest_sweep s res t)) = lastPrice t"
  by (simp add: backtest_sweep_def Let_def)

lemma monitor_update_new_high:
  "highestPrice t < g_lastPrice g \<Longrightarrow>
     \<not> downtrend (monitor_update g now t) \<and> \<not> downtrendConfirmed (monitor_update g now t)
     \<and> \<not> downtrendNotified (monitor_update g now t)"
  by (simp add: monitor_update_def reset_high_def Let_def)

lemma backtest_update_new_high:
  "lastPrice t \<le> highestPrice t \<Longrightarrow> highestPrice t < p \<Longrightarrow>
     \<not> downtrend (backtest_update p day res t) \<and> \<not> downtrendConfirmed (backtest_update p day res t)
     \<and> \<not> downtrendNotified (backtest_update p day res t)"
  by (simp add: backtest_update_def reset_high_def Let_def)

lemma backtest_invariant_fresh: "backtest_invariant (fresh_tracked s p d)"
  by (simp add: backtest_invariant_def fresh_tracked_def)

lemma backtest_invariant_update: "backtest_invariant t \<Longrightarrow> backtest_invariant (backtest_update p day res t)"
  unfolding backtest_invariant_def
  by (auto simp add: backtest_update_def reset_high_def Let_def split: option.splits)

lemma backtest_invariant_sweep: "backtest_invariant t \<Longrightarrow> backtest_invariant (fst (backtest_sweep s res t))"
  unfolding backtest_invariant_def
  by (auto simp add: backtest_sweep_def Let_def)

lemma monitor_invariant_fresh: "monitor_invariant (fresh_tracked s p d)"
  by (simp add: monitor_invariant_def fresh_tracked_def)

lemma monitor_invariant_update: "monitor_invariant t \<Longrightarrow> monitor_invariant (monitor_update g now t)"
  unfolding monitor_invariant_def
  by (auto simp add: monitor_update_def reset_high_def Let_def)

lemma monitor_invariant_result: "monitor_invariant t \<Longrightarrow> monitor_invariant (fst (monitor_result r t))"
  unfolding monitor_invariant_def
  by (auto simp add: monitor_result_def Let_def)

lemma monitor_run_snoc: "monitor_run (evs @ [e]) t = monitor_step e (monitor_run evs t)"
  by (simp add: monitor_run_def)

lemma backtest_run_snoc: "backtest_run (evs @ [e]) t = backtest_step e (backtest_run evs t)"
  by (simp add: backtest_run_def)

lemma monitor_invariant_step: "monitor_invariant (fst st) \<Longrightarrow> monitor_invariant (fst (monitor_step e st))"
  by (cases e; cases st) (simp_all add: monitor_invariant_update monitor_invariant_result)

lemma backtest_invariant_step: "backtest_invariant (fst st) \<Longrightarrow> backtest_invariant (fst (backtest_step e st))"
  by (cases e; cases st) (simp_all add: backtest_invariant_update backtest_invariant_sweep)

lemma monitor_invariant_run: "monitor_invariant t \<Longrightarrow> monitor_invariant (fst (monitor_run evs t))"
  by (induction evs rule: rev_induct) (simp_all add: monitor_run_def monitor_invariant_step)

lemma backtest_invariant_run: "backtest_invariant t \<Longrightarrow> backtest_invariant (fst (backtest_run evs t))"
  by (induction evs rule: rev_induct) (simp_all add: backtest_run_def backtest_invariant_step)

text \<open>Without a new high no flag is cleared.\<close>

lemma monitor_update_keeps:
  "g_lastPrice g \<le> highestPrice t \<Longrightarrow>
     downtrend (monitor_update g now t) = downtrend t
     \<and> downtrendConfirmed (monitor_update g now t) = downtrendConfirmed t
     \<and> downtrendNotified (monitor_update g now t) = downtrendNotified t"
  by (simp add: monitor_update_def Let_def)

lemma monitor_result_keeps:
  "(downtrend t \<longrightarrow> downtrend (fst (monitor_result r t)))
   \<and> (downtrendConfirmed t \<longrightarrow> downtrendConfirmed (fst (monitor_result r t)))
   \<and> (downtrendNotified t \<longrightarrow> downtrendNotified (fst (monitor_result r t)))"
  by (simp add: monitor_result_def Let_def)

lemma backtest_update_keeps:
  "p \<le> highestPrice t \<Longrightarrow>
     (downtrend t \<longrightarrow> downtrend (backtest_update p day res t))
   \<and> (downtrendConfirmed t \<longrightarrow> downtrendConfirmed (backtest_update p day res t))
   \<and> downtrendNotified (backtest_update p day res t) = downtrendNotified t"
  by (simp add: backtest_update_def Let_def split: option.splits)

lemma backtest_sweep_keeps:
  "downtrend (fst (backtest_sweep s res t)) = downtrend t
   \<and> downtrendConfirmed (fst (backtest_sweep s res t)) = downtrendConfirmed t
   \<and> (downtrendNotified t \<longrightarrow> downtrendNotified (fst (backtest_sweep s res t)))"
  by (simp add: backtest_sweep_def Let_def)

text \<open>When a confirmed-downtrend alert is produced.\<close>

lemma monitor_result_alert:
  "snd (snd (monitor_result r t)) \<noteq> [] \<longleftrightarrow>
     js_gt (dropPercentage (highestPrice t) (lastPrice t)) 5 \<and> \<not> downtrendConfirmed t \<and> \<not> downtrendNotified t"
  by (simp add: monitor_result_def Let_def)

lemma monitor_result_alert_length: "length (snd (snd (monitor_result r t))) \<le> 1"
  by (simp add: monitor_result_def Let_def)

lemma monitor_result_alert_notified:
  "snd (snd (monitor_result r t)) \<noteq> [] \<Longrightarrow> downtrendNotified (fst (monitor_result r t))"
  by (simp add: monitor_result_def Let_def split: if_splits)

lemma backtest_sweep_alert:
  "snd (snd (backtest_sweep s res t)) \<noteq> [] \<longleftrightarrow> downtrendConfirmed t \<and> \<not> downtrendNotified t"
  by (simp add: backtest_sweep_def Let_def)

lemma backtest_sweep_alert_length: "length (snd (snd (backtest_sweep s res t))) \<le> 1"
  by (simp add: backtest_sweep_def Let_def)

lemma backtest_sweep_alert_notified:
  "snd (snd (backtest_sweep s res t)) \<noteq> [] \<Longrightarrow> downtrendNotified (fst (backtest_sweep s res t))"
  by (simp add: backtest_sweep_def Let_def split: if_splits)

lemma monitor_quiet_run:
  "list_all (monitor_below (highestPrice t)) evs \<Longrightarrow>
     highestPrice (fst (monitor_run evs t)) = highestPrice t
     \<and> length (snd (monitor_run evs t)) \<le> 1
     \<and> (snd (monitor_run evs t) \<noteq> [] \<longrightarrow> downtrendNotified (fst (monitor_run evs t)))
     \<and> (downtrendNotified t \<longrightarrow>
          snd (monitor_run evs t) = [] \<and> downtrendNotified (fst (monitor_run evs t)))"
proof (induction evs rule: rev_induct)
  case Nil
  then show ?case by (simp add: monitor_run_def)
next
  case (snoc e evs)
  obtain t' al where run: "monitor_run evs t = (t', al)" by (cases "monitor_run evs t")
  from snoc have below: "monitor_below (highestPrice t) e"
    and ih: "highestPrice t' = highestPrice t" "length al \<le> 1"
      "al \<noteq> [] \<longrightarrow> downtrendNotified t'" "downtrendNotified t \<longrightarrow> al = [] \<and> downtrendNotified t'"
    by (simp_all add: run)
  show ?case
  proof (cases e)
    case (Seen g now)
    with below ih show ?thesis
      by (simp add: monitor_run_snoc run highest_monitor_update monitor_update_keeps)
  next
    case (Analysed r)
    have a: "downtrendNotified t' \<Longrightarrow> snd (snd (monitor_result r t')) = []"
      using monitor_result_alert [of r t'] by blast
    have b: "al \<noteq> [] \<Longrightarrow> snd (snd (monitor_result r t')) = []"
      using a ih(3) by blast
    have c: "length (al @ snd (snd (monitor_result r t'))) \<le> 1"
      using b ih(2) monitor_result_alert_length [of r t'] by (cases "al = []") auto
    show ?thesis
      using Analysed ih a c monitor_result_keeps [of t' r] monitor_result_alert_notified [of r t']
      by (auto simp add: monitor_run_snoc run highest_monitor_result)
  qed
qed

lemma backtest_quiet_run:
  "list_all (backtest_below (highestPrice t)) evs \<Longrightarrow>
     highestPrice (fst (backtest_run evs t)) = highestPrice t
     \<and> length (snd (backtest_run evs t)) \<le> 1
     \<and> (snd (backtest_run evs t) \<noteq> [] \<longrightarrow> downtrendNotified (fst (backtest_run evs t)))
     \<and> (downtrendNotified t \<longrightarrow>
          snd (backtest_run evs t) = [] \<and> downtrendNotified (fst (backtest_run evs t)))"
proof (induction evs rule: rev_induct)
  case Nil
  then show ?case by (simp add: backtest_run_def)
next
  case (snoc e evs)
  obtain t' al where run: "backtest_run evs t = (t', al)" by (cases "backtest_run evs t")
  from snoc have below: "backtest_below (highestPrice t) e"
    and ih: "highestPrice t' = highestPrice t" "length al \<le> 1"
      "al \<noteq> [] \<longrightarrow> downtrendNotified t'" "downtrendNotified t \<longrightarrow> al = [] \<and> downtrendNotified t'"
    by (simp_all add: run)
  show ?case
  proof (cases e)
    case (Gained p day res)
    with below ih show ?thesis
      by (simp add: backtest_run_snoc run highest_backtest_update backtest_update_keeps)
  next
    case (Swept s res)
    have a: "downtrendNotified t' \<Longrightarrow> snd (snd (backtest_sweep s res t')) = []"
      using backtest_sweep_alert [of s res t'] by blast
    have b: "al \<noteq> [] \<Longrightarrow> snd (snd (backtest_sweep s res t')) = []"
      using a ih(3) by blast
    have c: "length (al @ snd (snd (backtest_sweep s res t'))) \<le> 1"
      using b ih(2) backtest_sweep_alert_length [of s res t'] by (cases "al = []") auto
    show ?thesis
      using Swept ih a c backtest_sweep_keeps [of s res t'] backtest_sweep_alert_notified [of s res t']
      by (auto simp add: backtest_run_snoc run highest_backtest_sweep)
  qed
qed

text \<open>
  The drop percentage of a price at its high, and at the prices used in the examples
  below. The last two are the doubles nearest to 30.7 and 29.165, and to 0.0001 and
  0.000095: the computed drop is 5 on both pairs, while the exact quotient lies above 5
  on the first and below 5 on the second.
\<close>

lemmas double_eval = dropPercentage_def double_mult_def double_divide_def double_minus_def
  js_minus_def js_div_def fl_def binade.simps pow2_def rne_def Let_def

lemma drop_at_high: "dropPercentage p p = (if p = 0 then NaN else Fin 0)"
  by (simp add: dropPercentage_def double_mult_def double_divide_def double_minus_def
      js_minus_def js_div_def fl_def)

lemma drop_same: "\<not> js_ge (dropPercentage p p) 5"
  by (simp add: drop_at_high js_ge_def)

lemma drop_100_99: "dropPercentage 100 99 = Fin 1"
  by (simp add: double_eval)

lemma drop_100_95: "dropPercentage 100 95 = Fin 5"
  by (simp add: double_eval)

lemma drop_100_90: "dropPercentage 100 90 = Fin 10"
  by (simp add: double_eval)

lemma drop_100_80: "dropPercentage 100 80 = Fin 20"
  by (simp add: double_eval)

lemmas drop_values = drop_at_high drop_100_99 drop_100_95 drop_100_90 drop_100_80

lemma nearest_doubles:
  "fl 30.7 = Fin (8641281785017139 / 281474976710656)"
  "fl 29.165 = Fin (4104608847883141 / 140737488355328)"
  "fl 0.0001 = Fin (7378697629483821 / 73786976294838206464)"
  "fl 0.000095 = Fin (3504881374004815 / 36893488147419103232)"
  by (simp_all add: double_eval)

lemma drop_rounded_down:
  "dropPercentage (8641281785017139 / 281474976710656) (4104608847883141 / 140737488355328)
     = Fin 5"
  "5 < (8641281785017139 / 281474976710656 - 4104608847883141 / 140737488355328)
         / (8641281785017139 / 281474976710656) * (100 :: real)"
  by (simp_all add: double_eval)

lemma drop_rounded_up:
  "dropPercentage (7378697629483821 / 73786976294838206464)
       (3504881374004815 / 36893488147419103232)
     = Fin 5"
  "(7378697629483821 / 73786976294838206464 - 3504881374004815 / 36893488147419103232)
         / (7378697629483821 / 73786976294838206464) * (100 :: real) < 5"
  by (simp_all add: double_eval)

text \<open>
  In the backtest the drop percentage of an unconfirmed symbol fails the test \<open>>= 5\<close>
  after every step.
\<close>

lemma unconfirmed_invariant_fresh: "unconfirmed_invariant (fresh_tracked s p d)"
  by (simp add: unconfirmed_invariant_def fresh_tracked_def drop_same)

lemma unconfirmed_invariant_update:
  "backtest_invariant t \<Longrightarrow> unconfirmed_invariant (backtest_update p day res t)"
  using drop_same [of p] drop_same [of "highestPrice t"]
  unfolding unconfirmed_invariant_def backtest_invariant_def
  by (auto simp add: backtest_update_def reset_high_def Let_def split: option.splits)

lemma unconfirmed_invariant_sweep:
  "unconfirmed_invariant t \<Longrightarrow> unconfirmed_invariant (fst (backtest_sweep s res t))"
  by (simp add: unconfirmed_invariant_def backtest_sweep_def Let_def)

lemma unconfirmed_invariant_step:
  "backtest_invariant (fst st) \<Longrightarrow> unconfirmed_invariant (fst st)
     \<Longrightarrow> unconfirmed_invariant (fst (backtest_step e st))"
  by (cases e; cases st) (simp_all add: unconfirmed_invariant_update unconfirmed_invariant_sweep)

lemma unconfirmed_invariant_run:
  "backtest_invariant t \<Longrightarrow> unconfirmed_invariant t
     \<Longrightarrow> unconfirmed_invariant (fst (backtest_run evs t))"
proof (induction evs rule: rev_induct)
  case Nil
  then show ?case by (simp add: backtest_run_def)
next
  case (snoc e evs)
  then show ?case
    by (simp add: backtest_run_snoc unconfirmed_invariant_step backtest_invariant_run)
qed

section \<open>Claims about the tracking state\<close>

text \<open>
  C1. Each update of a tracked symbol leaves \<open>highestPrice\<close> at the larger of its old
  value and the observed price, so it never decreases and changes only to a strictly
  larger observed price; applying an analysis result and the end-of-day pass leave it
  alone. When the observed price exceeds the stored high, the same update leaves
  \<open>downtrend\<close>, \<open>downtrendConfirmed\<close> and \<open>downtrendNotified\<close> false: in the
  monitoring loop from any state, in the backtest from every state a run reaches from a
  fresh symbol.
\<close>

theorem highest_price_monotone:
  "highestPrice (monitor_update g now t) = max (highestPrice t) (g_lastPrice g)
   \<and> (highestPrice t < g_lastPrice g \<longrightarrow>
        \<not> downtrend (monitor_update g now t) \<and> \<not> downtrendConfirmed (monitor_update g now t)
        \<and> \<not> downtrendNotified (monitor_update g now t))
   \<and> highestPrice (fst (monitor_result r t)) = highestPrice t
   \<and> highestPrice (backtest_update p day res t) = max (highestPrice t) p
   \<and> highestPrice (fst (backtest_sweep s res t)) = highestPrice t
   \<and> (highestPrice (fst (backtest_run evs (fresh_tracked s0 p0 d0))) < p \<longrightarrow>
        \<not> downtrend (backtest_update p day res (fst (backtest_run evs (fresh_tracked s0 p0 d0))))
        \<and> \<not> downtrendConfirmed (backtest_update p day res (fst (backtest_run evs (fresh_tracked s0 p0 d0))))
        \<and> \<not> downtrendNotified (backtest_update p day res (fst (backtest_run evs (fresh_tracked s0 p0 d0)))))"
proof -
  have "backtest_invariant (fst (backtest_run evs (fresh_tracked s0 p0 d0)))"
    by (rule backtest_invariant_run) (rule backtest_invariant_fresh)
  then have "lastPrice (fst (backtest_run evs (fresh_tracked s0 p0 d0)))
               \<le> highestPrice (fst (backtest_run evs (fresh_tracked s0 p0 d0)))"
    by (simp add: backtest_invariant_def)
  then show ?thesis
    using backtest_update_new_high [of "fst (backtest_run evs (fresh_tracked s0 p0 d0))" p day res]
      monitor_update_new_high [of t g now]
    by (simp add: highest_monitor_update highest_monitor_result highest_backtest_update
        highest_backtest_sweep)
qed

theorem highest_price_monotone_witness:
  "highestPrice (fresh_tracked ''BTCUSDT'' 100 0) < g_lastPrice \<lparr>g_symbol = ''BTCUSDT'', g_lastPrice = 110\<rparr>
   \<and> highestPrice (monitor_update \<lparr>g_symbol = ''BTCUSDT'', g_lastPrice = 110\<rparr> 5 (fresh_tracked ''BTCUSDT'' 100 0)) = 110
   \<and> \<not> downtrendNotified (monitor_update \<lparr>g_symbol = ''BTCUSDT'', g_lastPrice = 110\<rparr> 5 (fresh_tracked ''BTCUSDT'' 100 0))
   \<and> downtrendNotified (fst (backtest_run [Gained 90 1 None, Swept ''BTCUSDT'' None] (fresh_tracked ''BTCUSDT'' 100 0)))
   \<and> highestPrice (fst (backtest_run [Gained 90 1 None, Swept ''BTCUSDT'' None] (fresh_tracked ''BTCUSDT'' 100 0))) < 110
   \<and> \<not> downtrendNotified (backtest_update 110 2 None (fst (backtest_run [Gained 90 1 None, Swept ''BTCUSDT'' None] (fresh_tracked ''BTCUSDT'' 100 0))))"
  using highest_price_monotone [of "\<lparr>g_symbol = ''BTCUSDT'', g_lastPrice = 110\<rparr>" 5 "fresh_tracked ''BTCUSDT'' 100 0"
      "\<lparr>r_symbol = ''BTCUSDT'', r_price = Fin 110, r_probability = Fin 0, r_signals = [],
         r_highestPrice = None, r_dropPercent = None\<rparr>" 110 2 None "''BTCUSDT''" "[Gained 90 1 None, Swept ''BTCUSDT'' None]" "''BTCUSDT''" 100 0]
  by (simp add: fresh_tracked_def backtest_run_def backtest_update_def backtest_sweep_def
      reset_high_def drop_values js_ge_def Let_def)

text \<open>
  C2, as stated, fails in the monitoring loop, in two ways. A symbol at 95 under a high
  of 100 has a drop percentage of exactly 5, and the analysis result processed for it
  neither sets \<open>downtrendConfirmed\<close> nor produces an alert: the test is \<open>> 5\<close>. And a
  symbol that fell from 100 to 90, a drop percentage of 10, goes through a whole cycle
  unconfirmed and without an alert when its candle fetch fails, because the test is made
  only in the loop over the analysis results.
\<close>

theorem monitor_five_percent_not_confirmed:
  "dropPercentage
       (highestPrice (monitor_update \<lparr>g_symbol = ''BTCUSDT'', g_lastPrice = 95\<rparr> 1 (fresh_tracked ''BTCUSDT'' 100 0)))
       (lastPrice (monitor_update \<lparr>g_symbol = ''BTCUSDT'', g_lastPrice = 95\<rparr> 1 (fresh_tracked ''BTCUSDT'' 100 0)))
     = Fin 5
   \<and> js_ge (dropPercentage
            (highestPrice (monitor_update \<lparr>g_symbol = ''BTCUSDT'', g_lastPrice = 95\<rparr> 1 (fresh_tracked ''BTCUSDT'' 100 0)))
            (lastPrice (monitor_update \<lparr>g_symbol = ''BTCUSDT'', g_lastPrice = 95\<rparr> 1 (fresh_tracked ''BTCUSDT'' 100 0)))) 5
   \<and> \<not> downtrendConfirmed (monitor_update \<lparr>g_symbol = ''BTCUSDT'', g_lastPrice = 95\<rparr> 1 (fresh_tracked ''BTCUSDT'' 100 0))
   \<and> \<not> downtrendConfirmed (fst (monitor_result
          \<lparr>r_symbol = ''BTCUSDT'', r_price = Fin 95, r_probability = Fin 0, r_signals = [],
           r_highestPrice = None, r_dropPercent = None\<rparr>
          (monitor_update \<lparr>g_symbol = ''BTCUSDT'', g_lastPrice = 95\<rparr> 1 (fresh_tracked ''BTCUSDT'' 100 0))))
   \<and> snd (snd (monitor_result
          \<lparr>r_symbol = ''BTCUSDT'', r_price = Fin 95, r_probability = Fin 0, r_signals = [],
           r_highestPrice = None, r_dropPercent = None\<rparr>
          (monitor_update \<lparr>g_symbol = ''BTCUSDT'', g_lastPrice = 95\<rparr> 1 (fresh_tracked ''BTCUSDT'' 100 0)))) = []
   \<and> dropPercentage 100 90 = Fin 10
   \<and> js_ge (dropPercentage 100 90) 5
   \<and> startMonitoring [] (Inr [(\<lparr>g_symbol = ''ETHUSDT'', g_lastPrice = 90\<rparr>, 5)])
        (\<lambda>s interval limit. Inl (ApiError ''HTTP 500'')) ''1h'' 6
        [(''ETHUSDT'', fresh_tracked ''ETHUSDT'' 100 0)]
      = ([(''ETHUSDT'',
           \<lparr>symbol = ''ETHUSDT'', lastPrice = 90, highestPrice = 100, lastUpdateTime = 5,
            signals = [], downtrend = False, downtrendConfirmed = False,
            downtrendNotified = False\<rparr>)],
         Inr \<lparr>weakBullishSymbols = [], confirmedDowntrendSymbols = [],
              trackingData =
                [\<lparr>symbol = ''ETHUSDT'', lastPrice = 90, highestPrice = 100, lastUpdateTime = 5,
                  signals = [], downtrend = False, downtrendConfirmed = False,
                  downtrendNotified = False\<rparr>],
              cleaned = 0\<rparr>)"
  by (simp add: startMonitoring_def before_cleanup_def track_gainers_def monitor_track_def
      symbolsToAnalyze_def analyzeSymbols_def analyze_step_def analyze_one_def
      process_results_def cleanup_def cleanedCount_def stale_def oneWeekInMs_def
      monitor_result_def monitor_update_def fresh_tracked_def drop_values js_ge_def js_gt_def
      Let_def)

text \<open>
  C2, amended. The drop percentage is the double that the code computes,
  \<open>((highestPrice - price) / highestPrice) * 100\<close> with each operation rounded. For a
  tracked symbol not yet confirmed, in every state a run reaches from a fresh symbol: in
  the monitoring loop the update from the gainers list never sets \<open>downtrendConfirmed\<close>,
  and an analysis result processed for the symbol sets it, and produces the
  confirmed-downtrend alert, exactly when the drop percentage of \<open>lastPrice\<close> is strictly
  greater than 5. In the backtest the drop percentage of the stored \<open>lastPrice\<close> fails
  the test \<open>>= 5\<close>, and the end-of-day pass leaves the symbol unconfirmed and produces no
  alert; the update for a day's price sets \<open>downtrendConfirmed\<close>, and the pass at the end
  of that day produces the alert, exactly when the drop percentage of that price is at
  least 5.
\<close>

theorem confirmed_downtrend_threshold:
  "(let t = fst (monitor_run evs (fresh_tracked s0 p0 d0))
    in \<not> downtrendConfirmed t \<longrightarrow>
         \<not> downtrendConfirmed (monitor_update g now t)
         \<and> (downtrendConfirmed (fst (monitor_result r t))
            \<longleftrightarrow> js_gt (dropPercentage (highestPrice t) (lastPrice t)) 5)
         \<and> (snd (snd (monitor_result r t)) \<noteq> []
            \<longleftrightarrow> js_gt (dropPercentage (highestPrice t) (lastPrice t)) 5))
   \<and> (let v = fst (backtest_run bevs (fresh_tracked s1 p1 d1));
          u = backtest_update p day res v
      in \<not> downtrendConfirmed v \<longrightarrow>
           \<not> js_ge (dropPercentage (highestPrice v) (lastPrice v)) 5
           \<and> \<not> downtrendConfirmed (fst (backtest_sweep s res' v))
           \<and> snd (snd (backtest_sweep s res' v)) = []
           \<and> (downtrendConfirmed u \<longleftrightarrow> js_ge (dropPercentage (highestPrice u) p) 5)
           \<and> (snd (snd (backtest_sweep s res' u)) \<noteq> []
              \<longleftrightarrow> js_ge (dropPercentage (highestPrice u) p) 5))"
proof -
  define t where "t = fst (monitor_run evs (fresh_tracked s0 p0 d0))"
  define v where "v = fst (backtest_run bevs (fresh_tracked s1 p1 d1))"
  have mi: "monitor_invariant t"
    unfolding t_def by (rule monitor_invariant_run) (rule monitor_invariant_fresh)
  have bi: "backtest_invariant v"
    unfolding v_def by (rule backtest_invariant_run) (rule backtest_invariant_fresh)
  have ui: "unconfirmed_invariant v"
    unfolding v_def
    by (rule unconfirmed_invariant_run) (rule backtest_invariant_fresh unconfirmed_invariant_fresh)+
  have m0: "\<not> downtrendConfirmed t \<Longrightarrow> \<not> downtrendConfirmed (monitor_update g now t)"
    by (simp add: monitor_update_def reset_high_def)
  have m1: "\<not> downtrendConfirmed t \<Longrightarrow>
      downtrendConfirmed (fst (monitor_result r t))
        \<longleftrightarrow> js_gt (dropPercentage (highestPrice t) (lastPrice t)) 5"
    by (simp add: monitor_result_def Let_def)
  have m2: "\<not> downtrendConfirmed t \<Longrightarrow>
      snd (snd (monitor_result r t)) \<noteq> []
        \<longleftrightarrow> js_gt (dropPercentage (highestPrice t) (lastPrice t)) 5"
    using mi by (simp add: monitor_result_alert monitor_invariant_def)
  have b0: "\<not> downtrendConfirmed v \<Longrightarrow>
      \<not> js_ge (dropPercentage (highestPrice v) (lastPrice v)) 5"
    using ui by (simp add: unconfirmed_invariant_def)
  have s1: "\<not> downtrendConfirmed v \<Longrightarrow> \<not> downtrendConfirmed (fst (backtest_sweep s res' v))"
    by (simp add: backtest_sweep_keeps)
  have s2: "\<not> downtrendConfirmed v \<Longrightarrow> snd (snd (backtest_sweep s res' v)) = []"
    using backtest_sweep_alert [of s res' v] by blast
  have b1: "\<not> downtrendConfirmed v \<Longrightarrow>
      downtrendConfirmed (backtest_update p day res v)
        \<longleftrightarrow> js_ge (dropPercentage (highestPrice (backtest_update p day res v)) p) 5"
    using bi drop_same [of p] drop_same [of "highestPrice v"]
    by (auto simp add: backtest_invariant_def backtest_update_def reset_high_def Let_def split: option.splits)
  have nn: "\<not> downtrendConfirmed v \<Longrightarrow> \<not> downtrendNotified (backtest_update p day res v)"
    using bi by (auto simp add: backtest_invariant_def backtest_update_def reset_high_def Let_def split: option.splits)
  have b2: "\<not> downtrendConfirmed v \<Longrightarrow>
      snd (snd (backtest_sweep s res' (backtest_update p day res v))) \<noteq> []
        \<longleftrightarrow> js_ge (dropPercentage (highestPrice (backtest_update p day res v)) p) 5"
    using b1 nn by (simp add: backtest_sweep_alert)
  show ?thesis
    using m0 m1 m2 b0 s1 s2 b1 b2 unfolding Let_def t_def [symmetric] v_def [symmetric]
    by blast
qed

theorem confirmed_downtrend_threshold_witness:
  "\<not> downtrendConfirmed (fst (monitor_run [Seen \<lparr>g_symbol = ''BTCUSDT'', g_lastPrice = 90\<rparr> 1]
        (fresh_tracked ''BTCUSDT'' 100 0)))
   \<and> js_gt (dropPercentage 100 90) 5
   \<and> downtrendConfirmed (fst (monitor_result
        \<lparr>r_symbol = ''BTCUSDT'', r_price = Fin 90, r_probability = Fin 0, r_signals = [],
         r_highestPrice = None, r_dropPercent = None\<rparr>
        (fst (monitor_run [Seen \<lparr>g_symbol = ''BTCUSDT'', g_lastPrice = 90\<rparr> 1]
           (fresh_tracked ''BTCUSDT'' 100 0)))))
   \<and> \<not> downtrendConfirmed (monitor_update \<lparr>g_symbol = ''BTCUSDT'', g_lastPrice = 80\<rparr> 2
        (fst (monitor_run [Seen \<lparr>g_symbol = ''BTCUSDT'', g_lastPrice = 90\<rparr> 1]
           (fresh_tracked ''BTCUSDT'' 100 0))))
   \<and> \<not> downtrendConfirmed (fst (backtest_run [] (fresh_tracked ''ETHUSDT'' 100 0)))
   \<and> js_ge (dropPercentage 100 95) 5
   \<and> downtrendConfirmed (backtest_update 95 1 None (fst (backtest_run [] (fresh_tracked ''ETHUSDT'' 100 0))))
   \<and> snd (snd (backtest_sweep ''ETHUSDT'' None
        (backtest_update 95 1 None (fst (backtest_run [] (fresh_tracked ''ETHUSDT'' 100 0)))))) \<noteq> []"
  using confirmed_downtrend_threshold [where
      evs = "[Seen \<lparr>g_symbol = ''BTCUSDT'', g_lastPrice = 90\<rparr> 1]"
      and ?s0.0 = "''BTCUSDT''" and ?p0.0 = 100 and ?d0.0 = 0
      and g = "\<lparr>g_symbol = ''BTCUSDT'', g_lastPrice = 80\<rparr>" and now = 2
      and r = "\<lparr>r_symbol = ''BTCUSDT'', r_price = Fin 90, r_probability = Fin 0, r_signals = [],
         r_highestPrice = None, r_dropPercent = None\<rparr>"
      and p = 95 and day = 1 and res = None and bevs = "[]"
      and ?s1.0 = "''ETHUSDT''" and ?p1.0 = 100 and ?d1.0 = 0 and s = "''ETHUSDT''" and res' = None]
  by (simp add: monitor_run_def backtest_run_def monitor_update_def fresh_tracked_def
      backtest_update_def reset_high_def drop_values js_gt_def js_ge_def Let_def)

text \<open>
  C3, as stated, fails in the monitoring loop: after a fall from 100 to 90 and an
  analysis result of probability 0 the symbol is confirmed and not in downtrend.
\<close>

theorem monitor_confirmed_without_downtrend:
  "downtrendConfirmed (fst (monitor_run
       [Seen \<lparr>g_symbol = ''BTCUSDT'', g_lastPrice = 90\<rparr> 1,
        Analysed \<lparr>r_symbol = ''BTCUSDT'', r_price = Fin 90, r_probability = Fin 0, r_signals = [],
                  r_highestPrice = None, r_dropPercent = None\<rparr>]
       (fresh_tracked ''BTCUSDT'' 100 0)))
   \<and> \<not> downtrend (fst (monitor_run
       [Seen \<lparr>g_symbol = ''BTCUSDT'', g_lastPrice = 90\<rparr> 1,
        Analysed \<lparr>r_symbol = ''BTCUSDT'', r_price = Fin 90, r_probability = Fin 0, r_signals = [],
                  r_highestPrice = None, r_dropPercent = None\<rparr>]
       (fresh_tracked ''BTCUSDT'' 100 0)))"
  by (simp add: monitor_run_def monitor_result_def monitor_update_def fresh_tracked_def
      drop_values js_gt_def Let_def)

text \<open>
  C3, amended. In every state reached from a fresh symbol \<open>downtrendNotified\<close> implies
  \<open>downtrendConfirmed\<close>, in both loops; \<open>downtrendConfirmed\<close> implies \<open>downtrend\<close>
  in the backtest. No step clears a flag unless the observed price is above the stored
  high.
\<close>

theorem flag_chain:
  "(downtrendNotified (fst (monitor_run evs (fresh_tracked s0 p0 d0)))
      \<longrightarrow> downtrendConfirmed (fst (monitor_run evs (fresh_tracked s0 p0 d0))))
   \<and> (downtrendNotified (fst (backtest_run bevs (fresh_tracked s1 p1 d1)))
      \<longrightarrow> downtrendConfirmed (fst (backtest_run bevs (fresh_tracked s1 p1 d1))))
   \<and> (downtrendConfirmed (fst (backtest_run bevs (fresh_tracked s1 p1 d1)))
      \<longrightarrow> downtrend (fst (backtest_run bevs (fresh_tracked s1 p1 d1))))
   \<and> (g_lastPrice g \<le> highestPrice t \<longrightarrow>
        downtrend (monitor_update g now t) = downtrend t
        \<and> downtrendConfirmed (monitor_update g now t) = downtrendConfirmed t
        \<and> downtrendNotified (monitor_update g now t) = downtrendNotified t)
   \<and> (downtrend t \<longrightarrow> downtrend (fst (monitor_result r t)))
   \<and> (downtrendConfirmed t \<longrightarrow> downtrendConfirmed (fst (monitor_result r t)))
   \<and> (downtrendNotified t \<longrightarrow> downtrendNotified (fst (monitor_result r t)))
   \<and> (p \<le> highestPrice t \<longrightarrow>
        (downtrend t \<longrightarrow> downtrend (backtest_update p day res t))
        \<and> (downtrendConfirmed t \<longrightarrow> downtrendConfirmed (backtest_update p day res t))
        \<and> (downtrendNotified t \<longrightarrow> downtrendNotified (backtest_update p day res t)))
   \<and> (downtrend t \<longrightarrow> downtrend (fst (backtest_sweep s res t)))
   \<and> (downtrendConfirmed t \<longrightarrow> downtrendConfirmed (fst (backtest_sweep s res t)))
   \<and> (downtrendNotified t \<longrightarrow> downtrendNotified (fst (backtest_sweep s res t)))"
proof -
  have "monitor_invariant (fst (monitor_run evs (fresh_tracked s0 p0 d0)))"
    by (rule monitor_invariant_run) (rule monitor_invariant_fresh)
  moreover have "backtest_invariant (fst (backtest_run bevs (fresh_tracked s1 p1 d1)))"
    by (rule backtest_invariant_run) (rule backtest_invariant_fresh)
  ultimately show ?thesis
    using monitor_update_keeps [of g t now] monitor_result_keeps [of t r]
      backtest_update_keeps [of p t day res] backtest_sweep_keeps [of s res t]
    by (simp add: monitor_invariant_def backtest_invariant_def)
qed

theorem flag_chain_witness:
  "downtrendNotified (fst (monitor_run
       [Seen \<lparr>g_symbol = ''BTCUSDT'', g_lastPrice = 90\<rparr> 1,
        Analysed \<lparr>r_symbol = ''BTCUSDT'', r_price = Fin 90, r_probability = Fin 0, r_signals = [],
                  r_highestPrice = None, r_dropPercent = None\<rparr>]
       (fresh_tracked ''BTCUSDT'' 100 0)))
   \<and> downtrendConfirmed (fst (monitor_run
       [Seen \<lparr>g_symbol = ''BTCUSDT'', g_lastPrice = 90\<rparr> 1,
        Analysed \<lparr>r_symbol = ''BTCUSDT'', r_price = Fin 90, r_probability = Fin 0, r_signals = [],
                  r_highestPrice = None, r_dropPercent = None\<rparr>]
       (fresh_tracked ''BTCUSDT'' 100 0)))
   \<and> downtrendNotified (fst (backtest_run [Gained 90 1 None, Swept ''BTCUSDT'' None]
       (fresh_tracked ''BTCUSDT'' 100 0)))
   \<and> downtrendConfirmed (fst (backtest_run [Gained 90 1 None, Swept ''BTCUSDT'' None]
       (fresh_tracked ''BTCUSDT'' 100 0)))
   \<and> downtrend (fst (backtest_run [Gained 90 1 None, Swept ''BTCUSDT'' None]
       (fresh_tracked ''BTCUSDT'' 100 0)))
   \<and> g_lastPrice \<lparr>g_symbol = ''BTCUSDT'', g_lastPrice = 80\<rparr>
        \<le> highestPrice (fst (backtest_run [Gained 90 1 None, Swept ''BTCUSDT'' None]
             (fresh_tracked ''BTCUSDT'' 100 0)))
   \<and> downtrendNotified (monitor_update \<lparr>g_symbol = ''BTCUSDT'', g_lastPrice = 80\<rparr> 2
        (fst (backtest_run [Gained 90 1 None, Swept ''BTCUSDT'' None]
           (fresh_tracked ''BTCUSDT'' 100 0))))
   \<and> downtrendNotified (backtest_update 80 2 None
        (fst (backtest_run [Gained 90 1 None, Swept ''BTCUSDT'' None]
           (fresh_tracked ''BTCUSDT'' 100 0))))"
  using flag_chain [where
      evs = "[Seen \<lparr>g_symbol = ''BTCUSDT'', g_lastPrice = 90\<rparr> 1,
        Analysed \<lparr>r_symbol = ''BTCUSDT'', r_price = Fin 90, r_probability = Fin 0, r_signals = [],
                  r_highestPrice = None, r_dropPercent = None\<rparr>]"
      and ?s0.0 = "''BTCUSDT''" and ?p0.0 = 100 and ?d0.0 = 0
      and bevs = "[Gained 90 1 None, Swept ''BTCUSDT'' None]"
      and ?s1.0 = "''BTCUSDT''" and ?p1.0 = 100 and ?d1.0 = 0
      and g = "\<lparr>g_symbol = ''BTCUSDT'', g_lastPrice = 80\<rparr>"
      and t = "fst (backtest_run [Gained 90 1 None, Swept ''BTCUSDT'' None] (fresh_tracked ''BTCUSDT'' 100 0))"
      and now = 2
      and r = "\<lparr>r_symbol = ''BTCUSDT'', r_price = Fin 90, r_probability = Fin 0, r_signals = [],
                  r_highestPrice = None, r_dropPercent = None\<rparr>"
      and p = 80 and day = 2 and res = None and s = "''BTCUSDT''"]
  by (simp add: monitor_run_def backtest_run_def monitor_update_def monitor_result_def
      fresh_tracked_def backtest_update_def backtest_sweep_def reset_high_def drop_values
      js_gt_def js_ge_def Let_def)

text \<open>
  C4. Over any sequence of events in which no observed price is above the stored high, at
  most one confirmed-downtrend alert is produced for the symbol, and none at all when
  \<open>downtrendNotified\<close> is already set, which then stays set; in both loops.
\<close>

theorem one_alert_per_high:
  "(list_all (monitor_below (highestPrice t)) evs \<longrightarrow>
      length (snd (monitor_run evs t)) \<le> 1
      \<and> (downtrendNotified t \<longrightarrow>
           snd (monitor_run evs t) = [] \<and> downtrendNotified (fst (monitor_run evs t))))
   \<and> (list_all (backtest_below (highestPrice t)) bevs \<longrightarrow>
      length (snd (backtest_run bevs t)) \<le> 1
      \<and> (downtrendNotified t \<longrightarrow>
           snd (backtest_run bevs t) = [] \<and> downtrendNotified (fst (backtest_run bevs t))))"
  using monitor_quiet_run [of t evs] backtest_quiet_run [of t bevs] by blast

theorem one_alert_per_high_witness:
  "list_all (monitor_below (highestPrice (fresh_tracked ''BTCUSDT'' 100 0)))
     [Seen \<lparr>g_symbol = ''BTCUSDT'', g_lastPrice = 90\<rparr> 1,
      Analysed \<lparr>r_symbol = ''BTCUSDT'', r_price = Fin 90, r_probability = Fin 0, r_signals = [],
                r_highestPrice = None, r_dropPercent = None\<rparr>,
      Seen \<lparr>g_symbol = ''BTCUSDT'', g_lastPrice = 80\<rparr> 2,
      Analysed \<lparr>r_symbol = ''BTCUSDT'', r_price = Fin 80, r_probability = Fin 0, r_signals = [],
                r_highestPrice = None, r_dropPercent = None\<rparr>]
   \<and> length (snd (monitor_run
       [Seen \<lparr>g_symbol = ''BTCUSDT'', g_lastPrice = 90\<rparr> 1,
        Analysed \<lparr>r_symbol = ''BTCUSDT'', r_price = Fin 90, r_probability = Fin 0, r_signals = [],
                  r_highestPrice = None, r_dropPercent = None\<rparr>,
        Seen \<lparr>g_symbol = ''BTCUSDT'', g_lastPrice = 80\<rparr> 2,
        Analysed \<lparr>r_symbol = ''BTCUSDT'', r_price = Fin 80, r_probability = Fin 0, r_signals = [],
                  r_highestPrice = None, r_dropPercent = None\<rparr>]
       (fresh_tracked ''BTCUSDT'' 100 0))) = 1
   \<and> list_all (backtest_below (highestPrice (fresh_tracked ''BTCUSDT'' 100 0)))
       [Gained 90 1 None, Swept ''BTCUSDT'' None, Gained 80 2 None, Swept ''BTCUSDT'' None]
   \<and> length (snd (backtest_run
       [Gained 90 1 None, Swept ''BTCUSDT'' None, Gained 80 2 None, Swept ''BTCUSDT'' None]
       (fresh_tracked ''BTCUSDT'' 100 0))) = 1"
  using one_alert_per_high [of "fresh_tracked ''BTCUSDT'' 100 0"
      "[Seen \<lparr>g_symbol = ''BTCUSDT'', g_lastPrice = 90\<rparr> 1,
        Analysed \<lparr>r_symbol = ''BTCUSDT'', r_price = Fin 90, r_probability = Fin 0, r_signals = [],
                  r_highestPrice = None, r_dropPercent = None\<rparr>,
        Seen \<lparr>g_symbol = ''BTCUSDT'', g_lastPrice = 80\<rparr> 2,
        Analysed \<lparr>r_symbol = ''BTCUSDT'', r_price = Fin 80, r_probability = Fin 0, r_signals = [],
                  r_highestPrice = None, r_dropPercent = None\<rparr>]"
      "[Gained 90 1 None, Swept ''BTCUSDT'' None, Gained 80 2 None, Swept ''BTCUSDT'' None]"]
  by (simp add: monitor_run_def backtest_run_def monitor_update_def monitor_result_def
      fresh_tracked_def backtest_update_def backtest_sweep_def reset_high_def drop_values
      js_gt_def js_ge_def Let_def)

text \<open>
  C7. In the monitoring loop, a tracked symbol with \<open>downtrend\<close> not set gets it set by
  an analysis result, and a weak-bullish alert is queued, exactly when the probability of
  the result exceeds 70 and the last price is strictly below \<open>highestPrice\<close>.
\<close>

theorem weak_bullish_condition:
  "\<not> downtrend t \<Longrightarrow>
     (downtrend (fst (monitor_result r t))
        \<longleftrightarrow> js_gt (r_probability r) 70 \<and> lastPrice t < highestPrice t)
     \<and> (fst (snd (monitor_result r t)) \<noteq> []
        \<longleftrightarrow> js_gt (r_probability r) 70 \<and> lastPrice t < highestPrice t)"
  by (simp add: monitor_result_def Let_def)

theorem weak_bullish_condition_witness:
  "\<not> downtrend (monitor_update \<lparr>g_symbol = ''BTCUSDT'', g_lastPrice = 99\<rparr> 1 (fresh_tracked ''BTCUSDT'' 100 0))
   \<and> js_gt (r_probability \<lparr>r_symbol = ''BTCUSDT'', r_price = Fin 99, r_probability = Fin 75,
         r_signals = [\<lparr>name = Volume_Stall, strength = Fin 75\<rparr>],
         r_highestPrice = None, r_dropPercent = None\<rparr>) 70
   \<and> downtrend (fst (monitor_result
        \<lparr>r_symbol = ''BTCUSDT'', r_price = Fin 99, r_probability = Fin 75,
         r_signals = [\<lparr>name = Volume_Stall, strength = Fin 75\<rparr>],
         r_highestPrice = None, r_dropPercent = None\<rparr>
        (monitor_update \<lparr>g_symbol = ''BTCUSDT'', g_lastPrice = 99\<rparr> 1 (fresh_tracked ''BTCUSDT'' 100 0))))
   \<and> length (fst (snd (monitor_result
        \<lparr>r_symbol = ''BTCUSDT'', r_price = Fin 99, r_probability = Fin 75,
         r_signals = [\<lparr>name = Volume_Stall, strength = Fin 75\<rparr>],
         r_highestPrice = None, r_dropPercent = None\<rparr>
        (monitor_update \<lparr>g_symbol = ''BTCUSDT'', g_lastPrice = 99\<rparr> 1 (fresh_tracked ''BTCUSDT'' 100 0))))) = 1"
  using weak_bullish_condition [of
      "monitor_update \<lparr>g_symbol = ''BTCUSDT'', g_lastPrice = 99\<rparr> 1 (fresh_tracked ''BTCUSDT'' 100 0)"
      "\<lparr>r_symbol = ''BTCUSDT'', r_price = Fin 99, r_probability = Fin 75,
         r_signals = [\<lparr>name = Volume_Stall, strength = Fin 75\<rparr>],
         r_highestPrice = None, r_dropPercent = None\<rparr>"]
  by (simp add: monitor_update_def monitor_result_def fresh_tracked_def js_gt_def Let_def)

section \<open>Properties of the tracked-symbol map\<close>

text \<open>
  What one turn of each loop does to the entry of a symbol; the keys stay distinct, and a
  turn touches only the entry of its own symbol.
\<close>

lemma map_of_monitor_track:
  "map_of (monitor_track (g, now) m) s =
     (if s = g_symbol g
      then Some (case map_of m s of
                   None \<Rightarrow> fresh_tracked s (g_lastPrice g) now
                 | Some t \<Rightarrow> monitor_update g now t)
      else map_of m s)"
  by (simp add: monitor_track_def update_conv' split: option.splits)

lemma map_of_apply_result_same:
  "map_of (fst (apply_result r st)) (r_symbol r) =
     (case map_of (fst st) (r_symbol r) of
        None \<Rightarrow> None
      | Some t \<Rightarrow> Some (fst (monitor_result r t)))"
  by (cases st) (simp add: apply_result_def update_conv' split: option.splits prod.splits)

lemma map_of_backtest_track:
  "map_of (backtest_track day rs g m) s =
     (if s = g_symbol g
      then Some (case map_of m s of
                   None \<Rightarrow> fresh_tracked s (g_lastPrice g) day
                 | Some t \<Rightarrow> backtest_update (g_lastPrice g) day (find_result rs s) t)
      else map_of m s)"
  by (simp add: backtest_track_def update_conv' split: option.splits)

lemma map_of_sweep_all:
  "map_of (map (\<lambda>(s, x). (s, fst x)) (sweep_all rs m)) s =
     (case map_of m s of
        None \<Rightarrow> None
      | Some t \<Rightarrow> Some (fst (backtest_sweep s (find_result rs s) t)))"
  by (induction m) (auto simp add: sweep_all_def)

lemma distinct_restore_item: "distinct (map fst m) \<Longrightarrow> distinct (map fst (restore_item hn m))"
  by (cases hn) (simp add: restore_item_def distinct_update split: option.splits)

lemma distinct_monitor_track: "distinct (map fst m) \<Longrightarrow> distinct (map fst (monitor_track gn m))"
  by (cases gn) (simp add: monitor_track_def distinct_update split: option.splits)

lemma distinct_apply_result:
  "distinct (map fst (fst st)) \<Longrightarrow> distinct (map fst (fst (apply_result r st)))"
  by (cases st) (simp add: apply_result_def distinct_update split: option.splits prod.splits)

lemma distinct_fold_restore:
  "distinct (map fst m) \<Longrightarrow> distinct (map fst (fold restore_item hs m))"
  by (induction hs arbitrary: m) (simp_all add: distinct_restore_item)

lemma distinct_track_gainers:
  "distinct (map fst m) \<Longrightarrow> distinct (map fst (track_gainers gs m))"
  unfolding track_gainers_def
  by (induction gs arbitrary: m) (simp_all add: distinct_monitor_track)

lemma distinct_fold_apply:
  "distinct (map fst (fst st)) \<Longrightarrow> distinct (map fst (fst (fold apply_result rs st)))"
  by (induction rs arbitrary: st) (simp_all add: distinct_apply_result)

lemma distinct_process_results:
  "distinct (map fst m) \<Longrightarrow> distinct (map fst (fst (process_results rs m)))"
  unfolding process_results_def by (rule distinct_fold_apply) simp

lemma distinct_before_cleanup:
  "distinct (map fst m) \<Longrightarrow>
     distinct (map fst (fst (before_cleanup historicalData gainersList fetchCandles interval m)))"
  by (simp add: before_cleanup_def Let_def distinct_process_results distinct_track_gainers
      distinct_fold_restore)

lemma map_of_cleanup:
  "distinct (map fst m) \<Longrightarrow>
     map_of (cleanup now m) s =
       (case map_of m s of None \<Rightarrow> None | Some d \<Rightarrow> if stale now d then None else Some d)"
proof (induction m)
  case Nil
  then show ?case by (simp add: cleanup_def)
next
  case (Cons kv m)
  obtain k d where kv: "kv = (k, d)" by (cases kv)
  from Cons.prems kv have notin: "k \<notin> fst ` set m" and dist: "distinct (map fst m)" by auto
  have ih: "map_of (cleanup now m) s =
       (case map_of m s of None \<Rightarrow> None | Some d \<Rightarrow> if stale now d then None else Some d)"
    using Cons.IH dist by simp
  have none: "map_of m k = None" using notin by (simp add: map_of_eq_None_iff)
  show ?case
  proof (cases "s = k")
    case True
    with ih none kv show ?thesis by (simp add: cleanup_def)
  next
    case False
    with ih kv show ?thesis by (simp add: cleanup_def)
  qed
qed

lemma map_of_apply_result:
  "r_symbol r \<noteq> s \<Longrightarrow> map_of (fst (apply_result r st)) s = map_of (fst st) s"
  by (cases st) (simp add: apply_result_def update_conv' split: option.splits prod.splits)

lemma map_of_fold_apply:
  "\<forall>r \<in> set rs. r_symbol r \<noteq> s \<Longrightarrow> map_of (fst (fold apply_result rs st)) s = map_of (fst st) s"
  by (induction rs arbitrary: st) (simp_all add: map_of_apply_result)

lemma map_of_process_results:
  "\<forall>r \<in> set rs. r_symbol r \<noteq> s \<Longrightarrow> map_of (fst (process_results rs m)) s = map_of m s"
  by (simp add: process_results_def map_of_fold_apply)

text \<open>
  The loops act on the entry of a symbol as a run of events: the states the maps hold
  are the states runs reach, for a symbol added by the loop from a fresh one.
\<close>

lemma monitor_fold_fst:
  "fst (fold monitor_step evs (t, a)) = fst (fold monitor_step evs (t, b))"
proof (induction evs arbitrary: t a b)
  case Nil
  show ?case by simp
next
  case (Cons e evs)
  show ?case
    by (cases e) (simp_all, (rule Cons.IH)+)
qed

lemma monitor_run_Cons:
  "fst (monitor_run (e # evs) t) = fst (monitor_run evs (fst (monitor_step e (t, []))))"
  using monitor_fold_fst [of evs "fst (monitor_step e (t, []))" "snd (monitor_step e (t, []))" "[]"]
  by (simp add: monitor_run_def)

lemma backtest_fold_fst:
  "fst (fold backtest_step evs (t, a)) = fst (fold backtest_step evs (t, b))"
proof (induction evs arbitrary: t a b)
  case Nil
  show ?case by simp
next
  case (Cons e evs)
  show ?case
    by (cases e) (simp_all, (rule Cons.IH)+)
qed

lemma backtest_run_Cons:
  "fst (backtest_run (e # evs) t) = fst (backtest_run evs (fst (backtest_step e (t, []))))"
  using backtest_fold_fst [of evs "fst (backtest_step e (t, []))" "snd (backtest_step e (t, []))" "[]"]
  by (simp add: backtest_run_def)

lemma track_gainers_run:
  fixes gs :: "(gainer \<times> int) list"
  shows "map_of m s = Some t \<Longrightarrow>
     \<exists>evs. map_of (track_gainers gs m) s = Some (fst (monitor_run evs t))"
proof (induction gs arbitrary: m t)
  case Nil
  have "fst (monitor_run [] t) = t" by (simp add: monitor_run_def)
  with Nil show ?case unfolding track_gainers_def by (metis fold_simps(1))
next
  case (Cons gn gs)
  obtain g now where gn: "gn = (g, now)" by (cases gn)
  show ?case
  proof (cases "s = g_symbol g")
    case True
    with Cons.prems gn have "map_of (monitor_track gn m) s = Some (monitor_update g now t)"
      by (simp add: map_of_monitor_track)
    from Cons.IH [OF this] obtain evs where
      "map_of (track_gainers gs (monitor_track gn m)) s
         = Some (fst (monitor_run evs (monitor_update g now t)))" by blast
    then have "map_of (track_gainers (gn # gs) m) s
         = Some (fst (monitor_run (Seen g now # evs) t))"
      by (simp add: track_gainers_def monitor_run_Cons)
    then show ?thesis by blast
  next
    case False
    with Cons.prems gn have "map_of (monitor_track gn m) s = Some t"
      by (simp add: map_of_monitor_track)
    from Cons.IH [OF this] show ?thesis by (simp add: track_gainers_def)
  qed
qed

lemma fold_apply_result_run:
  "map_of (fst st) s = Some t \<Longrightarrow>
     \<exists>evs. map_of (fst (fold apply_result rs st)) s = Some (fst (monitor_run evs t))"
proof (induction rs arbitrary: st t)
  case Nil
  have "fst (monitor_run [] t) = t" by (simp add: monitor_run_def)
  with Nil show ?case by (metis fold_simps(1))
next
  case (Cons r rs)
  show ?case
  proof (cases "s = r_symbol r")
    case True
    with Cons.prems have "map_of (fst (apply_result r st)) s = Some (fst (monitor_result r t))"
      by (simp add: map_of_apply_result_same)
    from Cons.IH [OF this] obtain evs where
      "map_of (fst (fold apply_result rs (apply_result r st))) s
         = Some (fst (monitor_run evs (fst (monitor_result r t))))" by blast
    then have "map_of (fst (fold apply_result (r # rs) st)) s
         = Some (fst (monitor_run (Analysed r # evs) t))"
      by (simp add: monitor_run_Cons)
    then show ?thesis by blast
  next
    case False
    with Cons.prems have "map_of (fst (apply_result r st)) s = Some t"
      by (simp add: map_of_apply_result)
    from Cons.IH [OF this] show ?thesis by simp
  qed
qed

lemma process_results_run:
  "map_of m s = Some t \<Longrightarrow>
     \<exists>evs. map_of (fst (process_results rs m)) s = Some (fst (monitor_run evs t))"
  unfolding process_results_def by (rule fold_apply_result_run) simp

lemma fold_backtest_track_run:
  "map_of m s = Some t \<Longrightarrow>
     \<exists>evs. map_of (fold (backtest_track day rs) gs m) s = Some (fst (backtest_run evs t))"
proof (induction gs arbitrary: m t)
  case Nil
  have "fst (backtest_run [] t) = t" by (simp add: backtest_run_def)
  with Nil show ?case by (metis fold_simps(1))
next
  case (Cons g gs)
  show ?case
  proof (cases "s = g_symbol g")
    case True
    with Cons.prems have "map_of (backtest_track day rs g m) s
        = Some (backtest_update (g_lastPrice g) day (find_result rs s) t)"
      by (simp add: map_of_backtest_track)
    from Cons.IH [OF this] obtain evs where
      "map_of (fold (backtest_track day rs) gs (backtest_track day rs g m)) s
         = Some (fst (backtest_run evs (backtest_update (g_lastPrice g) day (find_result rs s) t)))"
      by blast
    then have "map_of (fold (backtest_track day rs) (g # gs) m) s
         = Some (fst (backtest_run (Gained (g_lastPrice g) day (find_result rs s) # evs) t))"
      by (simp add: backtest_run_Cons)
    then show ?thesis by blast
  next
    case False
    with Cons.prems have "map_of (backtest_track day rs g m) s = Some t"
      by (simp add: map_of_backtest_track)
    from Cons.IH [OF this] show ?thesis by simp
  qed
qed

lemma processDay_run:
  "map_of m s = Some t \<Longrightarrow>
     \<exists>evs. map_of (fst (processDay day gainers fetchCandles interval m)) s
              = Some (fst (backtest_run evs t))"
proof -
  assume a: "map_of m s = Some t"
  define rs where "rs = fst (analyzeSymbols fetchCandles gainers interval)"
  from fold_backtest_track_run [OF a, of day rs gainers] obtain evs where
    e: "map_of (fold (backtest_track day rs) gainers m) s = Some (fst (backtest_run evs t))"
    by blast
  obtain u al where run: "backtest_run evs t = (u, al)" by (cases "backtest_run evs t")
  have "map_of (fst (processDay day gainers fetchCandles interval m)) s
      = Some (fst (backtest_run (evs @ [Swept s (find_result rs s)]) t))"
    using e run
    by (simp add: processDay_def Let_def rs_def [symmetric] map_of_sweep_all backtest_run_snoc)
  then show ?thesis by blast
qed


lemma track_gainers_fresh:
  fixes gs :: "(gainer \<times> int) list"
  shows "map_of m s = None \<Longrightarrow>
     map_of (track_gainers gs m) s = None
     \<or> (\<exists>p now evs. map_of (track_gainers gs m) s
            = Some (fst (monitor_run evs (fresh_tracked s p now))))"
proof (induction gs arbitrary: m)
  case Nil
  then show ?case by (simp add: track_gainers_def)
next
  case (Cons gn gs)
  obtain g now where gn: "gn = (g, now)" by (cases gn)
  show ?case
  proof (cases "s = g_symbol g")
    case True
    with Cons.prems gn have "map_of (monitor_track gn m) s
        = Some (fresh_tracked s (g_lastPrice g) now)"
      by (simp add: map_of_monitor_track)
    from track_gainers_run [OF this, of gs] show ?thesis
      by (auto simp add: track_gainers_def)
  next
    case False
    with Cons.prems gn have "map_of (monitor_track gn m) s = None"
      by (simp add: map_of_monitor_track)
    from Cons.IH [OF this] show ?thesis by (simp add: track_gainers_def)
  qed
qed

lemma fold_backtest_track_fresh:
  "map_of m s = None \<Longrightarrow>
     map_of (fold (backtest_track day rs) gs m) s = None
     \<or> (\<exists>p evs. map_of (fold (backtest_track day rs) gs m) s
            = Some (fst (backtest_run evs (fresh_tracked s p day))))"
proof (induction gs arbitrary: m)
  case Nil
  then show ?case by simp
next
  case (Cons g gs)
  show ?case
  proof (cases "s = g_symbol g")
    case True
    with Cons.prems have "map_of (backtest_track day rs g m) s
        = Some (fresh_tracked s (g_lastPrice g) day)"
      by (simp add: map_of_backtest_track)
    from fold_backtest_track_run [OF this, of day rs gs] show ?thesis
      by auto
  next
    case False
    with Cons.prems have "map_of (backtest_track day rs g m) s = None"
      by (simp add: map_of_backtest_track)
    from Cons.IH [OF this] show ?thesis by simp
  qed
qed

section \<open>Properties of the analyzer\<close>

lemma analyzeSymbol_enough:
  "2 \<le> length candles \<Longrightarrow>
     analyzeSymbol s candles =
       Inr \<lparr>r_symbol = s, r_price = c_close (candles ! (length candles - 1)),
            r_probability = score (detect_signals candles),
            r_signals = fst (detect_signals candles),
            r_highestPrice = None, r_dropPercent = None\<rparr>"
  by (simp add: analyzeSymbol_def Let_def)

lemma analyze_one_cases:
  "analyze_one fetchCandles interval x =
     (case fetchCandles (g_symbol x) interval 100 of
        Inl e \<Rightarrow> Inl e
      | Inr candles \<Rightarrow>
          if length candles < 30 then Inr None
          else Inr (Some \<lparr>r_symbol = g_symbol x, r_price = Fin (g_lastPrice x),
                 r_probability = score (detect_signals candles),
                 r_signals = fst (detect_signals candles),
                 r_highestPrice = None, r_dropPercent = None\<rparr>))"
  by (simp add: analyze_one_def analyzeSymbol_enough split: sum.splits)

lemma analyze_step_eq:
  "analyze_step fetchCandles interval x (results, warnings) =
     (results @ (case analyze_one fetchCandles interval x of Inr (Some r) \<Rightarrow> [r] | _ \<Rightarrow> []),
      warnings @ (case analyze_one fetchCandles interval x of
                    Inl e \<Rightarrow> [Analysis_failed (g_symbol x) e]
                  | Inr None \<Rightarrow> [Insufficient_history (g_symbol x)]
                  | Inr (Some r) \<Rightarrow> []))"
  by (simp add: analyze_step_def split: sum.splits option.splits)

lemma fold_analyze_step:
  "fold (analyze_step fetchCandles interval) symbols (results, warnings) =
     (results @ List.map_filter
         (\<lambda>x. case analyze_one fetchCandles interval x of Inr (Some r) \<Rightarrow> Some r | _ \<Rightarrow> None) symbols,
      warnings @ List.map_filter
         (\<lambda>x. case analyze_one fetchCandles interval x of
                 Inl e \<Rightarrow> Some (Analysis_failed (g_symbol x) e)
               | Inr None \<Rightarrow> Some (Insufficient_history (g_symbol x))
               | Inr (Some r) \<Rightarrow> None) symbols)"
proof (induction symbols arbitrary: results warnings)
  case Nil
  then show ?case by (simp add: map_filter_simps)
next
  case (Cons x symbols)
  have "fold (analyze_step fetchCandles interval) (x # symbols) (results, warnings)
      = fold (analyze_step fetchCandles interval) symbols
          (analyze_step fetchCandles interval x (results, warnings))"
    by simp
  then show ?case
    unfolding analyze_step_eq Cons.IH
    by (simp add: map_filter_simps split: sum.splits option.splits)
qed

lemma no_result_for_short:
  assumes "fetchCandles s interval 100 = Inr candles" and "length candles < 30"
  shows "\<forall>r \<in> set (fst (analyzeSymbols fetchCandles symbols interval)). r_symbol r \<noteq> s"
proof -
  have "fst (analyzeSymbols fetchCandles symbols interval) =
      List.map_filter
         (\<lambda>x. case analyze_one fetchCandles interval x of Inr (Some r) \<Rightarrow> Some r | _ \<Rightarrow> None) symbols"
    by (simp add: analyzeSymbols_def fold_analyze_step)
  then show ?thesis
    using assms
    by (auto simp add: map_filter_def analyze_one_cases split: sum.splits if_splits option.splits)
qed

text \<open>The scoring state is well formed after each check.\<close>

lemma well_scored_start: "well_scored ([], Fin 0) []"
  by (simp add: well_scored_def)

lemma well_scored_push:
  "well_scored st ws \<Longrightarrow> 0 < w \<Longrightarrow> w \<le> 100 \<Longrightarrow> well_scored (push_signal n (Fin w) st) (ws @ [w])"
  by (cases st) (simp add: well_scored_def push_signal_def)

lemma capped_strength:
  assumes "js_less (Fin c) x" and "0 \<le> c - d" and "0 < k"
  shows "\<exists>w. js_min (Fin 100) (js_mult (js_minus x (Fin d)) (Fin k)) = Fin w \<and> 0 < w \<and> w \<le> 100"
proof (cases x)
  case (Fin a)
  with assms have "0 < (a - d) * k" by simp
  with Fin show ?thesis by (simp add: js_minus_def)
qed (use assms in \<open>simp_all add: js_minus_def\<close>)

lemma capped_ratio:
  assumes "js_less (Fin c) x" and "0 \<le> c" and "0 < k"
  shows "\<exists>w. js_min (Fin 100) (js_mult x (Fin k)) = Fin w \<and> 0 < w \<and> w \<le> 100"
proof (cases x)
  case (Fin a)
  with assms have "0 < a * k" by simp
  with Fin show ?thesis by simp
qed (use assms in simp_all)

lemma well_scored_rsi:
  "well_scored st ws \<Longrightarrow> \<exists>ws'. well_scored (check_rsi rsi lastIndex st) ws'"
proof (cases "js_less (Fin 70) (js_nth rsi lastIndex)")
  case True
  assume ws: "well_scored st ws"
  from capped_strength [OF True, of 70 "3.33"]
  obtain w where "js_min (Fin 100) (js_mult (js_minus (js_nth rsi lastIndex) (Fin 70)) (Fin 3.33)) = Fin w"
    and "0 < w" and "w \<le> 100" by auto
  with True well_scored_push [OF ws, of w RSI_Overbought] show ?thesis
    by (auto simp add: check_rsi_def)
next
  case False
  assume "well_scored st ws"
  with False show ?thesis by (auto simp add: check_rsi_def)
qed

lemma well_scored_bollinger:
  "well_scored st ws \<Longrightarrow> \<exists>ws'. well_scored (check_bollinger bb lastCandle lastIndex st) ws'"
proof -
  assume ws: "well_scored st ws"
  define ratio where "ratio =
     js_divide (js_minus (c_close lastCandle) (js_nth (middle bb) lastIndex))
              (js_minus (js_nth (upper bb) lastIndex) (js_nth (middle bb) lastIndex))"
  show ?thesis
  proof (cases "js_less (Fin 0.8) ratio")
    case True
    from capped_ratio [OF True, of 100]
    obtain w where "js_min (Fin 100) (js_mult ratio (Fin 100)) = Fin w" and "0 < w" and "w \<le> 100"
      by auto
    with True well_scored_push [OF ws, of w Near_Bollinger_Upper] show ?thesis
      by (auto simp add: check_bollinger_def Let_def ratio_def)
  next
    case False
    with ws show ?thesis by (auto simp add: check_bollinger_def Let_def ratio_def)
  qed
qed

lemma well_scored_macd:
  "well_scored st ws \<Longrightarrow> \<exists>ws'. well_scored (check_macd macd lastIndex st) ws'"
  using well_scored_push [of st ws 90 MACD_Dead_Cross] by (auto simp add: check_macd_def)

lemma well_scored_ma_cross:
  "well_scored st ws \<Longrightarrow> \<exists>ws'. well_scored (check_ma_cross mas lastIndex st) ws'"
  using well_scored_push [of st ws 85 MA_Dead_Cross] by (auto simp add: check_ma_cross_def)

lemma well_scored_ma200:
  "well_scored st ws \<Longrightarrow> \<exists>ws'. well_scored (check_ma200 mas candles lastIndex st) ws'"
  using well_scored_push [of st ws 80 Below_MA200] by (auto simp add: check_ma200_def)

lemma well_scored_volume:
  "well_scored st ws \<Longrightarrow> \<exists>ws'. well_scored (check_volume candles lastIndex st) ws'"
  using well_scored_push [of st ws 75 Volume_Stall] by (auto simp add: check_volume_def)

lemma well_scored_detect: "\<exists>ws. well_scored (detect_signals candles) ws"
  unfolding detect_signals_def Let_def
  by (meson well_scored_start well_scored_rsi well_scored_bollinger well_scored_macd
      well_scored_ma_cross well_scored_ma200 well_scored_volume)

lemma score_well_scored:
  assumes "well_scored st ws"
  shows "score st =
     Fin (if ws = [] then 0
          else if 2 \<le> length ws then min 100 (min 100 (sum_list ws / real (length ws)) * 1.2)
          else min 100 (sum_list ws / real (length ws)))"
proof -
  obtain sigs tw where st: "st = (sigs, tw)" by (cases st)
  from assms st have len: "length sigs = length ws" and tw: "tw = Fin (sum_list ws)"
    by (auto simp add: well_scored_def dest: map_eq_imp_length_eq)
  show ?thesis
  proof (cases "ws = []")
    case True
    with len st show ?thesis by (simp add: score_def)
  next
    case False
    then have pos: "0 < length ws" by simp
    with len have sigs: "sigs \<noteq> []" by auto
    have "sum_list ws / (real (length ws) * 100) * 100 = sum_list ws / real (length ws)"
      by simp
    with False pos len st tw sigs show ?thesis
      by (simp add: score_def js_div_def Let_def)
  qed
qed

lemma sum_list_bounds:
  "list_all (\<lambda>w. 0 < w \<and> w \<le> (100::real)) ws \<Longrightarrow>
     0 \<le> sum_list ws \<and> sum_list ws \<le> 100 * real (length ws)"
  by (induction ws) (auto simp add: algebra_simps)

section \<open>The indicators on the two series\<close>

text \<open>
  Reading one entry of an indicator array, and the values the indicators take at the last
  candle of the two series. On both the Bollinger band has width 0 (the last twenty
  closes are equal), fewer than nine MACD values exist, so the signal line is \<open>NaN\<close>,
  and the 50 and 200 period averages are \<open>NaN\<close>. The volume check fires on both; the
  RSI is 50 on the first series and 75 on the second, where the RSI check fires too.
\<close>

lemma js_nth_Nil: "js_nth [] i = NaN"
  by (simp add: js_nth_def)

lemma js_nth_Cons_0: "js_nth (x # xs) 0 = x"
  by (simp add: js_nth_def)

lemma js_nth_Cons_Suc: "js_nth (x # xs) (Suc n) = js_nth xs n"
  by (simp add: js_nth_def)

lemma js_nth_Cons_numeral: "js_nth (x # xs) (numeral k) = js_nth xs (pred_numeral k)"
  by (simp add: js_nth_def nth_Cons_numeral)

lemmas js_nth_list = js_nth_Nil js_nth_Cons_0 js_nth_Cons_Suc js_nth_Cons_numeral

lemma replicate_numeral: "replicate (numeral k) x = x # replicate (pred_numeral k) x"
  by (simp add: numeral_eq_Suc)

lemma js_nth_map_upt: "js_nth (map f [0..<n]) i = (if i < n then f i else NaN)"
  by (simp add: js_nth_def)

lemma read_MA:
  "js_nth (calculateMA data period) i =
     (if i < length data
      then if int i < int period - 1 then NaN
           else js_divide (window_sum data period i) (Fin (real period))
      else NaN)"
  unfolding calculateMA_def js_nth_map_upt by simp

lemma read_moving_average:
  "js_nth (moving_average n prices) i =
     (if i < length prices
      then if i < n - 1 then NaN
           else js_divide (fold (\<lambda>b a. js_plus a b) (take n (drop (i - (n - 1)) prices)) (Fin 0))
                  (Fin (real n))
      else NaN)"
  unfolding moving_average_def js_nth_map_upt by simp

lemma read_upper:
  "js_nth (upper (calculateBollingerBands candles period multiplier)) i =
     (if i < length candles
      then if int i < int period - 1 then NaN
           else js_plus (js_nth (calculateMA (closes candles) period) i)
                  (js_mult (Fin multiplier)
                     (stdDev (closes candles) (calculateMA (closes candles) period) period i))
      else NaN)"
  unfolding calculateBollingerBands_def Let_def bands.simps closes_def js_nth_map_upt length_map
  by simp

lemma read_middle:
  "middle (calculateBollingerBands candles period multiplier) = calculateMA (closes candles) period"
  by (simp add: calculateBollingerBands_def Let_def)

lemma short_EMA: "calculateEMA [Fin 0, Fin 0, Fin 0, Fin 0, Fin 0] 9 = [NaN, NaN, NaN, NaN, NaN, NaN, NaN, NaN, NaN]"
  by (simp add: calculateEMA_def js_nth_list js_div_def Let_def upt_conv_Cons replicate_numeral)

lemma quiet_length: "length quiet_candles = 30" "length (closes quiet_candles) = 30"
  by (simp_all add: quiet_candles_def closes_def)

lemma quiet_closes:
  "js_nth (closes quiet_candles) i =
     js_nth (map Fin [
         10, 12, 8, 10, 10, 10, 10, 10, 10, 10, 10, 10, 10, 10, 10, 10, 10, 10, 10, 10,
         10, 10, 10, 10, 10, 10, 10, 10, 10, 10]) i"
  by (simp add: quiet_candles_def closes_def)

lemma quiet_nth:
  "quiet_candles ! 29 = \<lparr>c_open = Fin 10, c_high = Fin 10, c_low = Fin 10, c_close = Fin 10,
                      c_volume = Fin 2, c_closeTime = 0\<rparr>"
  "quiet_candles ! 28 = \<lparr>c_open = Fin 10, c_high = Fin 10, c_low = Fin 10, c_close = Fin 10,
                      c_volume = Fin 1, c_closeTime = 0\<rparr>"
  by (simp_all add: quiet_candles_def)

lemma quiet_rsi: "js_nth (calculateRSI quiet_candles 14) 29 = Fin 50"
  by (simp add: calculateRSI_def quiet_length quiet_closes rsi_first_def rsi_smooth_def rsi_value_def
      js_nth_list js_minus_def js_div_def Let_def upt_conv_Cons replicate_numeral)

lemma quiet_middle: "js_nth (calculateMA (closes quiet_candles) 20) 29 = Fin 10"
  by (simp add: read_MA window_sum_def quiet_length quiet_closes js_nth_list js_div_def upt_conv_Cons)

lemma quiet_stdDev:
  "stdDev (closes quiet_candles) (calculateMA (closes quiet_candles) 20) 20 29 = Fin 0"
  by (simp add: stdDev_def quiet_middle quiet_closes js_nth_list Let_def js_minus_def js_div_def
      upt_conv_Cons)

lemma quiet_upper: "js_nth (upper (calculateBollingerBands quiet_candles 20 2)) 29 = Fin 10"
  by (simp add: read_upper quiet_length quiet_middle quiet_stdDev)

lemma quiet_ma50: "js_nth (ma50 (calculateMovingAverages quiet_candles)) 29 = NaN"
  by (simp add: calculateMovingAverages_def Let_def read_moving_average quiet_length)

lemma quiet_ma200: "js_nth (ma200 (calculateMovingAverages quiet_candles)) 29 = NaN"
  by (simp add: calculateMovingAverages_def Let_def read_moving_average quiet_length)

lemma quiet_fastEMA:
  "calculateEMA (closes quiet_candles) 12 =
     [
      NaN, NaN, NaN, NaN, NaN, NaN, NaN, NaN, NaN, NaN, NaN, Fin 10, Fin 10, Fin 10,
      Fin 10, Fin 10, Fin 10, Fin 10, Fin 10, Fin 10, Fin 10, Fin 10, Fin 10, Fin 10,
      Fin 10, Fin 10, Fin 10, Fin 10, Fin 10, Fin 10]"
  by (simp add: calculateEMA_def quiet_length quiet_closes js_nth_list js_div_def Let_def
      upt_conv_Cons replicate_numeral)

lemma quiet_slowEMA:
  "calculateEMA (closes quiet_candles) 26 =
     [
      NaN, NaN, NaN, NaN, NaN, NaN, NaN, NaN, NaN, NaN, NaN, NaN, NaN, NaN, NaN, NaN,
      NaN, NaN, NaN, NaN, NaN, NaN, NaN, NaN, NaN, Fin 10, Fin 10, Fin 10, Fin 10,
      Fin 10]"
  by (simp add: calculateEMA_def quiet_length quiet_closes js_nth_list js_div_def Let_def
      upt_conv_Cons replicate_numeral)

lemma quiet_MACD:
  "MACD (calculateMACD quiet_candles 12 26 9) =
     [
      NaN, NaN, NaN, NaN, NaN, NaN, NaN, NaN, NaN, NaN, NaN, NaN, NaN, NaN, NaN, NaN,
      NaN, NaN, NaN, NaN, NaN, NaN, NaN, NaN, NaN, Fin 0, Fin 0, Fin 0, Fin 0, Fin 0]"
  unfolding calculateMACD_def Let_def
  by (simp add: quiet_fastEMA quiet_slowEMA quiet_length js_nth_list js_minus_def upt_conv_Cons)

lemma quiet_signal_line: "js_nth (signal_line (calculateMACD quiet_candles 12 26 9)) 29 = NaN"
proof -
  have "signal_line (calculateMACD quiet_candles 12 26 9)
      = signal_back (MACD (calculateMACD quiet_candles 12 26 9))
          (calculateEMA (filter (\<lambda>v. v \<noteq> NaN) (MACD (calculateMACD quiet_candles 12 26 9))) 9) 0"
    by (simp add: calculateMACD_def Let_def)
  then show ?thesis
    by (simp add: quiet_MACD short_EMA js_nth_list)
qed

lemma quiet_detect:
  "detect_signals quiet_candles =
     ([\<lparr>name = Volume_Stall, strength = Fin 75\<rparr>], Fin 75)"
proof -
  have "check_rsi (calculateRSI quiet_candles 14) 29 ([], Fin 0) = ([], Fin 0)"
    by (simp add: check_rsi_def quiet_rsi push_signal_def js_minus_def)
  moreover have "check_bollinger (calculateBollingerBands quiet_candles 20 2) (quiet_candles ! 29) 29 st = st"
    for st
    by (simp add: check_bollinger_def read_middle quiet_middle quiet_upper quiet_nth js_minus_def
        js_div_def Let_def)
  moreover have "check_macd (calculateMACD quiet_candles 12 26 9) 29 st = st" for st
    by (simp add: check_macd_def quiet_signal_line)
  moreover have "check_ma_cross (calculateMovingAverages quiet_candles) 29 st = st" for st
    by (simp add: check_ma_cross_def quiet_ma50)
  moreover have "check_ma200 (calculateMovingAverages quiet_candles) quiet_candles 29 st = st" for st
    by (simp add: check_ma200_def quiet_ma200)
  moreover have "check_volume quiet_candles 29 st = push_signal Volume_Stall (Fin 75) st" for st
    by (simp add: check_volume_def quiet_nth)
  ultimately show ?thesis
    unfolding detect_signals_def Let_def
    by (simp add: quiet_length push_signal_def)
qed















section \<open>Claims about the analyzer and the monitoring cycle\<close>



text \<open>
  C6. On a list of at least 30 candles \<open>analyzeSymbol\<close> returns a result, and its
  probability is a finite number between 0 and 100.
\<close>

theorem probability_in_range:
  "30 \<le> length candles \<Longrightarrow>
     \<exists>r p. analyzeSymbol s candles = Inr r \<and> r_probability r = Fin p \<and> 0 \<le> p \<and> p \<le> 100"
proof -
  assume len: "30 \<le> length candles"
  obtain ws where ws: "well_scored (detect_signals candles) ws"
    using well_scored_detect by blast
  define p where "p = (if ws = [] then 0
          else if 2 \<le> length ws then min 100 (min 100 (sum_list ws / real (length ws)) * 1.2)
          else min 100 (sum_list ws / real (length ws)))"
  from ws have "0 \<le> sum_list ws" using sum_list_bounds [of ws] by (simp add: well_scored_def)
  then have mean: "0 \<le> sum_list ws / real (length ws)" by simp
  have p: "0 \<le> p \<and> p \<le> 100"
    using mean by (simp add: p_def min_def)
  have "score (detect_signals candles) = Fin p"
    using score_well_scored [OF ws] by (simp add: p_def)
  with len p show ?thesis
    by (simp add: analyzeSymbol_def Let_def)
qed

theorem probability_in_range_witness:
  "30 \<le> length quiet_candles
   \<and> analyzeSymbol ''BTCUSDT'' quiet_candles =
       Inr \<lparr>r_symbol = ''BTCUSDT'', r_price = Fin 10, r_probability = Fin 75,
            r_signals = [\<lparr>name = Volume_Stall, strength = Fin 75\<rparr>],
            r_highestPrice = None, r_dropPercent = None\<rparr>
   \<and> (\<exists>r p. analyzeSymbol ''BTCUSDT'' quiet_candles = Inr r \<and> r_probability r = Fin p
         \<and> 0 \<le> p \<and> p \<le> 100)"
proof -
  have a: "30 \<le> length quiet_candles"
    by (simp add: quiet_length)
  have b: "analyzeSymbol ''BTCUSDT'' quiet_candles =
       Inr \<lparr>r_symbol = ''BTCUSDT'', r_price = Fin 10, r_probability = Fin 75,
            r_signals = [\<lparr>name = Volume_Stall, strength = Fin 75\<rparr>],
            r_highestPrice = None, r_dropPercent = None\<rparr>"
    by (simp add: analyzeSymbol_def Let_def quiet_length quiet_detect quiet_nth score_def
        js_div_def)
  show ?thesis
    using a b probability_in_range [OF a, of "''BTCUSDT''"] by blast
qed

text \<open>
  C8, as stated, fails for a cycle in which \<open>fetchGainersList\<close> raises: the cycle ends in
  the \<open>catch\<close> of \<open>startMonitoring\<close>, the clean-up is not reached, and a symbol last
  updated 604800001 milliseconds before the clock, more than 7 days, stays in the map.
\<close>

theorem failed_cycle_keeps_stale_symbol:
  "7 * 24 * 60 * 60 * 1000 < 604800001 - lastUpdateTime (fresh_tracked ''OLDUSDT'' 1 0)
   \<and> startMonitoring [] (Inl (ApiError ''HTTP 500'') :: exn + (gainer \<times> int) list)
        (\<lambda>s interval limit. Inl (ApiError ''HTTP 500'')) ''1h'' 604800001
        [(''OLDUSDT'', fresh_tracked ''OLDUSDT'' 1 0)]
      = ([(''OLDUSDT'', fresh_tracked ''OLDUSDT'' 1 0)], Inl (ApiError ''HTTP 500''))
   \<and> map_of (fst (startMonitoring [] (Inl (ApiError ''HTTP 500'') :: exn + (gainer \<times> int) list)
        (\<lambda>s interval limit. Inl (ApiError ''HTTP 500'')) ''1h'' 604800001
        [(''OLDUSDT'', fresh_tracked ''OLDUSDT'' 1 0)])) ''OLDUSDT''
      = Some (fresh_tracked ''OLDUSDT'' 1 0)"
  by (simp add: startMonitoring_def fresh_tracked_def)

text \<open>
  C8, amended. At the end of every monitoring cycle in which the gainers list was fetched
  (the cycle does not end in the \<open>catch\<close>), the tracked symbols left in the map are
  those of the map before the clean-up whose \<open>lastUpdateTime\<close> is not more than 7 days,
  7 * 24 * 60 * 60 * 1000 milliseconds, older than the clock; each keeps its state.
\<close>

theorem weekly_cleanup:
  "distinct (map fst m) \<Longrightarrow>
     distinct (map fst (fst (startMonitoring historicalData (Inr gainersList) fetchCandles interval now m)))
     \<and> map_of (fst (startMonitoring historicalData (Inr gainersList) fetchCandles interval now m)) s =
        (case map_of (fst (before_cleanup historicalData gainersList fetchCandles interval m)) s of
           None \<Rightarrow> None
         | Some d \<Rightarrow> if now - lastUpdateTime d > 7 * 24 * 60 * 60 * 1000 then None else Some d)"
proof -
  assume d: "distinct (map fst m)"
  obtain m2 weak conf where bc:
    "before_cleanup historicalData gainersList fetchCandles interval m = (m2, weak, conf)"
    by (cases "before_cleanup historicalData gainersList fetchCandles interval m") auto
  have d2: "distinct (map fst m2)"
    using distinct_before_cleanup [OF d, of historicalData gainersList fetchCandles interval] bc
    by simp
  have fstm: "fst (startMonitoring historicalData (Inr gainersList) fetchCandles interval now m)
      = cleanup now m2"
    by (simp add: startMonitoring_def bc)
  have "distinct (map fst (cleanup now m2))"
    using d2 by (simp add: cleanup_def distinct_map_filter)
  then show ?thesis
    using map_of_cleanup [OF d2, of now s] fstm bc
    by (simp add: stale_def oneWeekInMs_def split: option.splits)
qed

theorem weekly_cleanup_witness:
  "distinct (map fst [(''OLDUSDT'', fresh_tracked ''OLDUSDT'' 1 0),
                      (''NEWUSDT'', fresh_tracked ''NEWUSDT'' 2 1)])
   \<and> map_of (fst (startMonitoring [] (Inr ([] :: (gainer \<times> int) list)) (\<lambda>s i n. Inl (ApiError ''offline'')) ''1h'' 604800001
        [(''OLDUSDT'', fresh_tracked ''OLDUSDT'' 1 0),
         (''NEWUSDT'', fresh_tracked ''NEWUSDT'' 2 1)])) ''OLDUSDT'' = None
   \<and> map_of (fst (startMonitoring [] (Inr ([] :: (gainer \<times> int) list)) (\<lambda>s i n. Inl (ApiError ''offline'')) ''1h'' 604800001
        [(''OLDUSDT'', fresh_tracked ''OLDUSDT'' 1 0),
         (''NEWUSDT'', fresh_tracked ''NEWUSDT'' 2 1)])) ''NEWUSDT''
      = Some (fresh_tracked ''NEWUSDT'' 2 1)"
  using weekly_cleanup [where m = "[(''OLDUSDT'', fresh_tracked ''OLDUSDT'' 1 0),
                        (''NEWUSDT'', fresh_tracked ''NEWUSDT'' 2 1)]"
      and historicalData = "[]" and gainersList = "[] :: (gainer \<times> int) list"
      and fetchCandles = "\<lambda>s i n. Inl (ApiError ''offline'')" and interval = "''1h''"
      and now = 604800001 and s = "''OLDUSDT''"]
    weekly_cleanup [where m = "[(''OLDUSDT'', fresh_tracked ''OLDUSDT'' 1 0),
                        (''NEWUSDT'', fresh_tracked ''NEWUSDT'' 2 1)]"
      and historicalData = "[]" and gainersList = "[] :: (gainer \<times> int) list"
      and fetchCandles = "\<lambda>s i n. Inl (ApiError ''offline'')" and interval = "''1h''"
      and now = 604800001 and s = "''NEWUSDT''"]
  by (simp add: before_cleanup_def track_gainers_def symbolsToAnalyze_def analyzeSymbols_def
      analyze_step_def analyze_one_def process_results_def fresh_tracked_def Let_def)

text \<open>
  C9. \<open>analyzeSymbols\<close> returns, in input order, one result for each symbol whose candle
  fetch succeeded with at least 30 candles, and nothing for the others; a fetch that
  raises is caught and logged as a warning, as is a history that is too short.
\<close>

theorem analyzeSymbols_skips_failures:
  "fst (analyzeSymbols fetchCandles symbols interval) =
     List.map_filter
       (\<lambda>x. case fetchCandles (g_symbol x) interval 100 of
               Inl e \<Rightarrow> None
             | Inr candles \<Rightarrow>
                 if length candles < 30 then None
                 else Some \<lparr>r_symbol = g_symbol x, r_price = Fin (g_lastPrice x),
                        r_probability = score (detect_signals candles),
                        r_signals = fst (detect_signals candles),
                        r_highestPrice = None, r_dropPercent = None\<rparr>)
       symbols
   \<and> snd (analyzeSymbols fetchCandles symbols interval) =
     List.map_filter
       (\<lambda>x. case fetchCandles (g_symbol x) interval 100 of
               Inl e \<Rightarrow> Some (Analysis_failed (g_symbol x) e)
             | Inr candles \<Rightarrow>
                 if length candles < 30 then Some (Insufficient_history (g_symbol x)) else None)
       symbols"
proof -
  have r: "(\<lambda>x. case analyze_one fetchCandles interval x of Inr (Some r) \<Rightarrow> Some r | _ \<Rightarrow> None)
    = (\<lambda>x. case fetchCandles (g_symbol x) interval 100 of
               Inl e \<Rightarrow> None
             | Inr candles \<Rightarrow>
                 if length candles < 30 then None
                 else Some \<lparr>r_symbol = g_symbol x, r_price = Fin (g_lastPrice x),
                        r_probability = score (detect_signals candles),
                        r_signals = fst (detect_signals candles),
                        r_highestPrice = None, r_dropPercent = None\<rparr>)"
    by (rule ext) (simp add: analyze_one_cases split: sum.splits)
  have w: "(\<lambda>x. case analyze_one fetchCandles interval x of
                 Inl e \<Rightarrow> Some (Analysis_failed (g_symbol x) e)
               | Inr None \<Rightarrow> Some (Insufficient_history (g_symbol x))
               | Inr (Some r) \<Rightarrow> None)
    = (\<lambda>x. case fetchCandles (g_symbol x) interval 100 of
               Inl e \<Rightarrow> Some (Analysis_failed (g_symbol x) e)
             | Inr candles \<Rightarrow>
                 if length candles < 30 then Some (Insufficient_history (g_symbol x)) else None)"
    by (rule ext) (simp add: analyze_one_cases split: sum.splits)
  show ?thesis
    unfolding analyzeSymbols_def fold_analyze_step r w by simp
qed

theorem analyzeSymbols_skips_failures_witness:
  "analyzeSymbols
     (\<lambda>s interval limit.
        if s = ''AAAUSDT'' then Inl (ApiError ''HTTP 500'')
        else if s = ''BBBUSDT'' then Inr (take 29 quiet_candles)
        else Inr quiet_candles)
     [\<lparr>g_symbol = ''AAAUSDT'', g_lastPrice = 1\<rparr>, \<lparr>g_symbol = ''BBBUSDT'', g_lastPrice = 2\<rparr>,
      \<lparr>g_symbol = ''CCCUSDT'', g_lastPrice = 3\<rparr>] ''1h''
   = ([\<lparr>r_symbol = ''CCCUSDT'', r_price = Fin 3, r_probability = Fin 75,
        r_signals = [\<lparr>name = Volume_Stall, strength = Fin 75\<rparr>],
        r_highestPrice = None, r_dropPercent = None\<rparr>],
      [Analysis_failed ''AAAUSDT'' (ApiError ''HTTP 500''), Insufficient_history ''BBBUSDT''])"
  using analyzeSymbols_skips_failures [of
      "\<lambda>s interval limit.
        if s = ''AAAUSDT'' then Inl (ApiError ''HTTP 500'')
        else if s = ''BBBUSDT'' then Inr (take 29 quiet_candles)
        else Inr quiet_candles"
      "[\<lparr>g_symbol = ''AAAUSDT'', g_lastPrice = 1\<rparr>, \<lparr>g_symbol = ''BBBUSDT'', g_lastPrice = 2\<rparr>,
      \<lparr>g_symbol = ''CCCUSDT'', g_lastPrice = 3\<rparr>]" "''1h''"]
  by (simp add: map_filter_simps quiet_length quiet_detect score_def js_div_def prod_eq_iff)

text \<open>
  C10. A symbol whose fetched candle list has fewer than 30 entries gets no analysis
  result, and the loop over the results leaves its entry of the map as the update from
  the gainers list left it.
\<close>

theorem short_history_leaves_state:
  assumes "fetchCandles s interval 100 = Inr candles" and "length candles < 30"
  shows "(\<forall>r \<in> set (fst (analyzeSymbols fetchCandles symbols interval)). r_symbol r \<noteq> s)
    \<and> map_of (fst (process_results (fst (analyzeSymbols fetchCandles symbols interval)) m)) s
        = map_of m s
    \<and> map_of (fst (before_cleanup historicalData gainersList fetchCandles interval m)) s
        = map_of (track_gainers gainersList (fold restore_item historicalData m)) s"
proof -
  have a: "\<forall>r \<in> set (fst (analyzeSymbols fetchCandles symbols interval)). r_symbol r \<noteq> s"
    using assms by (rule no_result_for_short)
  have b: "\<forall>r \<in> set (fst (analyzeSymbols fetchCandles
        (symbolsToAnalyze (track_gainers gainersList (fold restore_item historicalData m)))
        interval)). r_symbol r \<noteq> s"
    using assms by (rule no_result_for_short)
  show ?thesis
    unfolding before_cleanup_def Let_def
    using a map_of_process_results [OF a] map_of_process_results [OF b]
    by simp
qed

theorem short_history_leaves_state_witness:
  "(\<lambda>s interval limit. if s = ''BBBUSDT'' then Inr (take 29 quiet_candles) else Inr quiet_candles)
       ''BBBUSDT'' ''1h'' 100 = Inr (take 29 quiet_candles)
   \<and> length (take 29 quiet_candles) < 30
   \<and> map_of (fst (before_cleanup []
         [(\<lparr>g_symbol = ''BBBUSDT'', g_lastPrice = 90\<rparr>, 5)]
         (\<lambda>s interval limit. if s = ''BBBUSDT'' then Inr (take 29 quiet_candles) else Inr quiet_candles)
         ''1h'' [(''BBBUSDT'', fresh_tracked ''BBBUSDT'' 100 0)])) ''BBBUSDT''
     = Some \<lparr>symbol = ''BBBUSDT'', lastPrice = 90, highestPrice = 100, lastUpdateTime = 5,
             signals = [], downtrend = False, downtrendConfirmed = False,
             downtrendNotified = False\<rparr>"
proof -
  have a: "(\<lambda>s interval limit. if s = ''BBBUSDT'' then Inr (take 29 quiet_candles) else Inr quiet_candles)
       ''BBBUSDT'' ''1h'' 100 = Inr (take 29 quiet_candles)"
    by simp
  have b: "length (take 29 quiet_candles) < 30"
    by (simp add: quiet_length)
  show ?thesis
    using a b short_history_leaves_state [where
        fetchCandles = "\<lambda>s interval limit.
          if s = ''BBBUSDT'' then Inr (take 29 quiet_candles) else Inr quiet_candles"
        and s = "''BBBUSDT''" and interval = "''1h''" and candles = "take 29 quiet_candles"
        and historicalData = "[]" and symbols = "[] :: gainer list"
        and gainersList = "[(\<lparr>g_symbol = ''BBBUSDT'', g_lastPrice = 90\<rparr>, 5)]"
        and m = "[(''BBBUSDT'', fresh_tracked ''BBBUSDT'' 100 0)]"]
    by (simp add: track_gainers_def monitor_track_def monitor_update_def fresh_tracked_def)
qed

end
